theory Spec2Isabelle
  imports Main "HOL-Library.List_Lexorder" "HOL-Library.Char_ord" "HOL-Library.AList"
    "HOL-Library.Multiset"
begin

section \<open>The album store\<close>

text \<open>
  The development follows the first program of \<^verbatim>\<open>src/main.go\<close> (lines 1 to 305): the
  server with the structured JSON error envelope and its in-memory database. The second
  program of that file is the plainer variant of the same server (plain-text errors, no
  price check); its store has the same three operations.

  Go strings are byte strings and \<^verbatim>\<open><\<close> on them compares bytes lexicographically;
  \<^typ>\<open>string\<close> with the orders of \<^verbatim>\<open>Char_ord\<close> and \<^verbatim>\<open>List_Lexorder\<close> is the same
  order. \<^verbatim>\<open>Price\<close> is a Go \<^verbatim>\<open>int\<close>; the program only compares it, so it is an
  \<^typ>\<open>int\<close> here and the 64-bit range is checked where a value is decoded.
\<close>

record Album =
  ID :: string
  Title :: string
  Artist :: string
  Price :: int

text \<open>
  Go errors. \<^verbatim>\<open>ErrDoesNotExist\<close> and \<^verbatim>\<open>ErrAlreadyExists\<close> are the two package
  variables; \<open>Errors_New\<close> is any other error value, \<open>Wrapped\<close> an error that wraps
  another one (\<^verbatim>\<open>fmt.Errorf("...%w", err)\<close>), \<open>JSONError\<close> an error of
  \<^verbatim>\<open>encoding/json\<close> with its message. A Go \<^verbatim>\<open>error\<close> result is a
  \<^typ>\<open>'a option\<close>, \<^verbatim>\<open>nil\<close> being \<^term>\<open>None\<close>.
\<close>

datatype go_error =
    ErrDoesNotExist
  | ErrAlreadyExists
  | Errors_New string
  | Wrapped string go_error
  | JSONError string

fun unwrap_chain :: "go_error \<Rightarrow> go_error list" where
  "unwrap_chain (Wrapped m e) = Wrapped m e # unwrap_chain e"
| "unwrap_chain e = [e]"

text \<open>\<^verbatim>\<open>errors.Is(err, target)\<close>: some error of the chain of \<open>err\<close> is \<open>target\<close>.\<close>

fun errors_Is :: "go_error option \<Rightarrow> go_error \<Rightarrow> bool" where
  "errors_Is None target = False"
| "errors_Is (Some e) target = (target \<in> set (unwrap_chain e))"

text \<open>
  \<^verbatim>\<open>MemoryDatabase\<close>: the Go map \<^verbatim>\<open>albums map[string]Album\<close> is an association
  list. Go leaves the iteration order of a map unspecified; the order of the list stands
  for it. The mutex is not modelled: every operation runs as one step.
\<close>

record MemoryDatabase =
  albums :: "(string \<times> Album) list"

definition NewMemoryDatabase :: MemoryDatabase where
  "NewMemoryDatabase = \<lparr>albums = []\<rparr>"

text \<open>
  \<^verbatim>\<open>sort.Slice(albums, func(i, j) { return albums[i].ID < albums[j].ID })\<close> is the
  sort of the list by the key \<^const>\<open>ID\<close>. The library sort is not stable; the store
  holds one album for each ID, and then the ascending list is the same for every sorting
  procedure and every order of the entries (\<open>GetAlbums_layout\<close> below).
\<close>

definition MemoryDatabase_GetAlbums ::
  "MemoryDatabase \<Rightarrow> (Album list \<times> go_error option) \<times> MemoryDatabase" where
  "MemoryDatabase_GetAlbums d = ((sort_key ID (map snd (albums d)), None), d)"

definition MemoryDatabase_GetAlbumByID ::
  "string \<Rightarrow> MemoryDatabase \<Rightarrow> (Album \<times> go_error option) \<times> MemoryDatabase" where
  "MemoryDatabase_GetAlbumByID albumID d =
     (case map_of (albums d) albumID of
        None \<Rightarrow> ((\<lparr>ID = [], Title = [], Artist = [], Price = 0\<rparr>, Some ErrDoesNotExist), d)
      | Some album \<Rightarrow> ((album, None), d))"

definition MemoryDatabase_AddAlbum ::
  "Album \<Rightarrow> MemoryDatabase \<Rightarrow> go_error option \<times> MemoryDatabase" where
  "MemoryDatabase_AddAlbum album d =
     (case map_of (albums d) (ID album) of
        Some _ \<Rightarrow> (Some ErrAlreadyExists, d)
      | None \<Rightarrow> (None, d\<lparr>albums := albums d @ [(ID album, album)]\<rparr>))"

text \<open>
  The invariant of the store: one entry for each key, filed under the ID of its album.
  It holds of the new database and every insert keeps it.
\<close>

definition store_inv :: "MemoryDatabase \<Rightarrow> bool" where
  "store_inv d =
     (distinct (map fst (albums d)) \<and> list_all (\<lambda>(k, a). ID a = k) (albums d))"

section \<open>JSON values and the codec\<close>

text \<open>
  \<^verbatim>\<open>encoding/json\<close> is not part of the repository. Request and response bodies are
  modelled as JSON trees instead of bytes: a tree stands for any text that is read as
  it. \<open>JNumber\<close> is an integer literal, \<open>JFloat\<close> any other number literal, kept as its
  text. An object keeps its members in the order of the text.
\<close>

datatype json =
    JNull
  | JBool bool
  | JNumber int
  | JFloat string
  | JString string
  | JArray "json list"
  | JObject "(string \<times> json) list"

text \<open>The local struct \<^verbatim>\<open>validationIssue\<close> of \<^verbatim>\<open>addAlbum\<close>.\<close>

record validationIssue =
  issue_Error :: string
  issue_Message :: string

text \<open>The values the program stores in a \<^verbatim>\<open>map[string]interface{}\<close>.\<close>

datatype any = AnyString string | AnyIssue validationIssue

text \<open>
  The anonymous struct of \<^verbatim>\<open>jsonError\<close>. \<open>Data\<close> is a Go map, an association list
  here; \<^term>\<open>None\<close> is the \<^verbatim>\<open>nil\<close> map.
\<close>

record errorResponse =
  Status :: int
  Error :: string
  Data :: "(string \<times> any) list option"

text \<open>The values handed to \<^verbatim>\<open>writeJSON\<close> as \<^verbatim>\<open>v interface{}\<close>.\<close>

datatype payload = VAlbum Album | VAlbums "Album list" | VResponse errorResponse

text \<open>
  Encoding follows the struct tags: \<^verbatim>\<open>price\<close> and \<^verbatim>\<open>message\<close> and \<^verbatim>\<open>data\<close>
  are \<^verbatim>\<open>omitempty\<close> (left out when zero, empty, or a map of length 0); the keys of a
  map are written in sorted order.
\<close>

definition marshal_Album :: "Album \<Rightarrow> json" where
  "marshal_Album a =
     JObject ([(''id'', JString (ID a)), (''title'', JString (Title a)),
               (''artist'', JString (Artist a))] @
              (if Price a = 0 then [] else [(''price'', JNumber (Price a))]))"

definition marshal_validationIssue :: "validationIssue \<Rightarrow> json" where
  "marshal_validationIssue v =
     JObject ([(''error'', JString (issue_Error v))] @
              (if issue_Message v = [] then [] else [(''message'', JString (issue_Message v))]))"

fun marshal_any :: "any \<Rightarrow> json" where
  "marshal_any (AnyString s) = JString s"
| "marshal_any (AnyIssue v) = marshal_validationIssue v"

definition marshal_map :: "(string \<times> any) list \<Rightarrow> json" where
  "marshal_map m = JObject (map (\<lambda>(k, v). (k, marshal_any v)) (sort_key fst m))"

definition marshal_errorResponse :: "errorResponse \<Rightarrow> json" where
  "marshal_errorResponse r =
     JObject ([(''status'', JNumber (Status r)), (''error'', JString (Error r))] @
              (case Data r of
                 None \<Rightarrow> []
               | Some m \<Rightarrow> if length m = 0 then [] else [(''data'', marshal_map m)]))"

text \<open>
  \<^verbatim>\<open>json.MarshalIndent\<close> fails only on values JSON cannot express (channels,
  functions, cycles, NaN); strings, integers, structs, slices and maps of them always
  encode, so for every payload of this program the error is \<^verbatim>\<open>nil\<close>. A
  \<^verbatim>\<open>nil\<close> slice, which Go writes as \<^verbatim>\<open>null\<close>, is not distinguished from the empty
  slice; \<^verbatim>\<open>MemoryDatabase\<close> never returns one.
\<close>

fun json_MarshalIndent :: "payload \<Rightarrow> json \<times> go_error option" where
  "json_MarshalIndent (VAlbum a) = (marshal_Album a, None)"
| "json_MarshalIndent (VAlbums as) = (JArray (map marshal_Album as), None)"
| "json_MarshalIndent (VResponse r) = (marshal_errorResponse r, None)"

text \<open>
  The bytes of a request body: \<open>NotJSON msg\<close> is a text that is not JSON, with the
  parser's message; \<open>JSONText j\<close> is the text of the value \<open>j\<close>. A body is a reader
  that fails (\<^verbatim>\<open>iotest.ErrReader\<close>) or yields its bytes.
\<close>

datatype bytes = NotJSON string | JSONText json

datatype reader = ErrReader go_error | BytesReader bytes

fun io_ReadAll :: "reader \<Rightarrow> go_error + bytes" where
  "io_ReadAll (ErrReader e) = Inl e"
| "io_ReadAll (BytesReader b) = Inr b"

text \<open>\<^verbatim>\<open>strconv.Itoa\<close>, for the message of a number that does not fit an \<^verbatim>\<open>int\<close>.\<close>

fun digits :: "nat \<Rightarrow> string" where
  "digits n =
     (if n < 10 then [char_of (48 + n)]
      else digits (n div 10) @ [char_of (48 + n mod 10)])"

definition strconv_Itoa :: "int \<Rightarrow> string" where
  "strconv_Itoa i = (if i < 0 then CHR ''-'' # digits (nat (- i)) else digits (nat i))"

text \<open>
  Decoding into an \<^verbatim>\<open>Album\<close>. A key selects the field whose JSON name it equals
  when letter case is ignored (only ASCII letters are folded here); other keys are
  skipped. \<^verbatim>\<open>null\<close> leaves a field as it is. A value of the wrong kind, or a number
  that is no integer of 64 bits, leaves the field as it is and is an error; decoding
  goes on, and the first such error is the one returned.
\<close>

definition to_lower :: "char \<Rightarrow> char" where
  "to_lower c =
     (case map_of (zip ''ABCDEFGHIJKLMNOPQRSTUVWXYZ'' ''abcdefghijklmnopqrstuvwxyz'') c of
        Some l \<Rightarrow> l
      | None \<Rightarrow> c)"

fun json_kind :: "json \<Rightarrow> string" where
  "json_kind JNull = ''null''"
| "json_kind (JBool b) = ''bool''"
| "json_kind (JNumber n) = ''number''"
| "json_kind (JFloat s) = ''number''"
| "json_kind (JString s) = ''string''"
| "json_kind (JArray xs) = ''array''"
| "json_kind (JObject kvs) = ''object''"

definition type_error :: "string \<Rightarrow> string \<Rightarrow> string \<Rightarrow> go_error" where
  "type_error val field ty =
     JSONError (''json: cannot unmarshal '' @ val @ '' into Go struct field Album.'' @ field @
                '' of type '' @ ty)"

definition saveError :: "go_error \<Rightarrow> go_error option \<Rightarrow> go_error option" where
  "saveError e saved = (case saved of None \<Rightarrow> Some e | Some e0 \<Rightarrow> Some e0)"

fun decode_string ::
  "string \<Rightarrow> json \<Rightarrow> string \<times> go_error option \<Rightarrow> string \<times> go_error option" where
  "decode_string field JNull (cur, saved) = (cur, saved)"
| "decode_string field (JString s) (cur, saved) = (s, saved)"
| "decode_string field x (cur, saved) =
     (cur, saveError (type_error (json_kind x) field ''string'') saved)"

fun decode_int ::
  "string \<Rightarrow> json \<Rightarrow> int \<times> go_error option \<Rightarrow> int \<times> go_error option" where
  "decode_int field JNull (cur, saved) = (cur, saved)"
| "decode_int field (JNumber n) (cur, saved) =
     (if - (2 ^ 63) \<le> n \<and> n < 2 ^ 63 then (n, saved)
      else (cur, saveError (type_error (''number '' @ strconv_Itoa n) field ''int'') saved))"
| "decode_int field (JFloat s) (cur, saved) =
     (cur, saveError (type_error (''number '' @ s) field ''int'') saved)"
| "decode_int field x (cur, saved) =
     (cur, saveError (type_error (json_kind x) field ''int'') saved)"

definition decode_member ::
  "string \<times> json \<Rightarrow> Album \<times> go_error option \<Rightarrow> Album \<times> go_error option" where
  "decode_member kv st =
     (let key = map to_lower (fst kv); x = snd kv; v = fst st; saved = snd st in
      if key = ''id'' then
        (let (s, e) = decode_string ''id'' x (ID v, saved) in (v\<lparr>ID := s\<rparr>, e))
      else if key = ''title'' then
        (let (s, e) = decode_string ''title'' x (Title v, saved) in (v\<lparr>Title := s\<rparr>, e))
      else if key = ''artist'' then
        (let (s, e) = decode_string ''artist'' x (Artist v, saved) in (v\<lparr>Artist := s\<rparr>, e))
      else if key = ''price'' then
        (let (n, e) = decode_int ''price'' x (Price v, saved) in (v\<lparr>Price := n\<rparr>, e))
      else st)"

fun json_Unmarshal :: "bytes \<Rightarrow> Album \<Rightarrow> Album \<times> go_error option" where
  "json_Unmarshal (NotJSON msg) v = (v, Some (JSONError msg))"
| "json_Unmarshal (JSONText JNull) v = (v, None)"
| "json_Unmarshal (JSONText (JObject kvs)) v = fold decode_member kvs (v, None)"
| "json_Unmarshal (JSONText x) v =
     (v, Some (JSONError (''json: cannot unmarshal '' @ json_kind x @
                          '' into Go value of type main.Album'')))"

text \<open>\<^verbatim>\<open>err.Error()\<close>.\<close>

fun Error_text :: "go_error \<Rightarrow> string" where
  "Error_text ErrDoesNotExist = ''does not exist''"
| "Error_text ErrAlreadyExists = ''already exists''"
| "Error_text (Errors_New m) = m"
| "Error_text (Wrapped m e) = m"
| "Error_text (JSONError m) = m"

section \<open>Requests and the response writer\<close>

text \<open>
  A request is its method, \<^verbatim>\<open>r.URL.Path\<close> and its body. The response writer is
  \<^verbatim>\<open>httptest.ResponseRecorder\<close>, as in the tests: the first \<^verbatim>\<open>WriteHeader\<close> fixes
  the status and takes a snapshot of the headers, later changes of the header map are
  not sent, and a \<^verbatim>\<open>Write\<close> before any \<^verbatim>\<open>WriteHeader\<close> sends status 200.
\<close>

datatype body = JSONBody json | TextBody string

record Request =
  Method :: string
  Path :: string
  ReqBody :: reader

record ResponseWriter =
  HeaderMap :: "string \<rightharpoonup> string"
  wroteHeader :: bool
  Code :: int
  snapHeader :: "string \<rightharpoonup> string"
  Written :: "body list"

record Response =
  StatusCode :: int
  Header :: "string \<rightharpoonup> string"
  Body :: "body list"

definition NewRecorder :: ResponseWriter where
  "NewRecorder =
     \<lparr>HeaderMap = Map.empty, wroteHeader = False, Code = 200, snapHeader = Map.empty,
      Written = []\<rparr>"

definition Header_Set :: "string \<Rightarrow> string \<Rightarrow> ResponseWriter \<Rightarrow> ResponseWriter" where
  "Header_Set k v w = w\<lparr>HeaderMap := (HeaderMap w)(k \<mapsto> v)\<rparr>"

definition WriteHeader :: "int \<Rightarrow> ResponseWriter \<Rightarrow> ResponseWriter" where
  "WriteHeader code w =
     (if wroteHeader w then w
      else w\<lparr>Code := code, wroteHeader := True, snapHeader := HeaderMap w\<rparr>)"

definition Write :: "body \<Rightarrow> ResponseWriter \<Rightarrow> ResponseWriter" where
  "Write b w =
     (let w1 = (if wroteHeader w then w else WriteHeader 200 w)
      in w1\<lparr>Written := Written w1 @ [b]\<rparr>)"

definition Result :: "ResponseWriter \<Rightarrow> Response" where
  "Result w =
     \<lparr>StatusCode = Code w,
      Header = (if wroteHeader w then snapHeader w else HeaderMap w),
      Body = Written w\<rparr>"

text \<open>\<^verbatim>\<open>http.Error\<close>: a plain-text reply.\<close>

definition http_Error :: "ResponseWriter \<Rightarrow> string \<Rightarrow> int \<Rightarrow> ResponseWriter" where
  "http_Error w msg code =
     Write (TextBody (msg @ [CHR 0x0A]))
       (WriteHeader code
         (Header_Set ''X-Content-Type-Options'' ''nosniff''
           (Header_Set ''Content-Type'' ''text/plain; charset=utf-8'' w)))"

section \<open>The server\<close>

text \<open>
  The \<^verbatim>\<open>Database\<close> interface: an implementation is a record of its three methods
  over its own state \<open>'s\<close>, each returning the Go results and the state after the call.
\<close>

record 's Database =
  GetAlbums :: "'s \<Rightarrow> (Album list \<times> go_error option) \<times> 's"
  GetAlbumByID :: "string \<Rightarrow> 's \<Rightarrow> (Album \<times> go_error option) \<times> 's"
  AddAlbum :: "Album \<Rightarrow> 's \<Rightarrow> go_error option \<times> 's"

definition memoryDatabase :: "MemoryDatabase Database" where
  "memoryDatabase =
     \<lparr>GetAlbums = MemoryDatabase_GetAlbums,
      GetAlbumByID = MemoryDatabase_GetAlbumByID,
      AddAlbum = MemoryDatabase_AddAlbum\<rparr>"

text \<open>The failing database of the tests (\<^verbatim>\<open>errorDatabase\<close>).\<close>

definition errorDatabase :: "unit Database" where
  "errorDatabase =
     \<lparr>GetAlbums = (\<lambda>s. (([], Some (Errors_New ''GetAlbums error'')), s)),
      GetAlbumByID = (\<lambda>i s. ((\<lparr>ID = [], Title = [], Artist = [], Price = 0\<rparr>,
                                Some (Errors_New ''GetAlbumByID error'')), s)),
      AddAlbum = (\<lambda>a s. (Some (Errors_New ''AddAlbum error''), s))\<rparr>"

text \<open>The server; its logger writes nothing a response depends on and is left out.\<close>

record 's Server =
  db :: "'s Database"

definition NewServer :: "'s Database \<Rightarrow> 's Server" where
  "NewServer d = \<lparr>db = d\<rparr>"

definition ErrorAlreadyExists :: string where "ErrorAlreadyExists = ''already-exists''"
definition ErrorDatabase :: string where "ErrorDatabase = ''database''"
definition ErrorInternal :: string where "ErrorInternal = ''internal''"
definition ErrorMalformedJSON :: string where "ErrorMalformedJSON = ''malformed-json''"
definition ErrorMethodNotAllowed :: string where "ErrorMethodNotAllowed = ''method-not-allowed''"
definition ErrorNotFound :: string where "ErrorNotFound = ''not-found''"
definition ErrorValidation :: string where "ErrorValidation = ''validation''"

definition StatusOK :: int where "StatusOK = 200"
definition StatusCreated :: int where "StatusCreated = 201"
definition StatusBadRequest :: int where "StatusBadRequest = 400"
definition StatusNotFound :: int where "StatusNotFound = 404"
definition StatusMethodNotAllowed :: int where "StatusMethodNotAllowed = 405"
definition StatusConflict :: int where "StatusConflict = 409"
definition StatusInternalServerError :: int where "StatusInternalServerError = 500"

definition writeJSON :: "ResponseWriter \<Rightarrow> int \<Rightarrow> payload \<Rightarrow> ResponseWriter" where
  "writeJSON w status v =
     (let w1 = Header_Set ''Content-Type'' ''application/json; charset=utf-8'' w;
          (b, err) = json_MarshalIndent v
      in if err \<noteq> None
         then http_Error w1 (''{\"error\":\"'' @ ErrorInternal @ ''\"}'') StatusInternalServerError
         else Write (JSONBody b) (WriteHeader status w1))"

definition jsonError ::
  "ResponseWriter \<Rightarrow> int \<Rightarrow> string \<Rightarrow> (string \<times> any) list option \<Rightarrow> ResponseWriter" where
  "jsonError w status error data =
     writeJSON w status (VResponse \<lparr>Status = status, Error = error, Data = data\<rparr>)"

text \<open>
  \<^verbatim>\<open>readJSON\<close> returns the writer, whether it succeeded, and the decoded album.
\<close>

definition readJSON :: "ResponseWriter \<Rightarrow> Request \<Rightarrow> Album \<Rightarrow> ResponseWriter \<times> bool \<times> Album" where
  "readJSON w r v =
     (case io_ReadAll (ReqBody r) of
        Inl err \<Rightarrow> (jsonError w StatusInternalServerError ErrorInternal None, False, v)
      | Inr b \<Rightarrow>
          (let (v', err) = json_Unmarshal b v
           in case err of
                Some e \<Rightarrow>
                  (jsonError w StatusBadRequest ErrorMalformedJSON
                     (Some [(''message'', AnyString (Error_text e))]), False, v')
              | None \<Rightarrow> (w, True, v')))"

text \<open>The validation of \<^verbatim>\<open>addAlbum\<close>: the map of issues, built field by field.\<close>

definition validate :: "Album \<Rightarrow> (string \<times> any) list" where
  "validate album =
     (let issues = [];
          issues = (if ID album = [] then
                      AList.update ''id'' (AnyIssue \<lparr>issue_Error = ''required'', issue_Message = []\<rparr>) issues
                    else issues);
          issues = (if Title album = [] then
                      AList.update ''title'' (AnyIssue \<lparr>issue_Error = ''required'', issue_Message = []\<rparr>) issues
                    else issues);
          issues = (if Artist album = [] then
                      AList.update ''artist'' (AnyIssue \<lparr>issue_Error = ''required'', issue_Message = []\<rparr>) issues
                    else issues);
          issues = (if Price album < 0 \<or> Price album \<ge> 100000 then
                      AList.update ''price''
                        (AnyIssue \<lparr>issue_Error = ''out-of-range'',
                                   issue_Message = ''price must be between 0 and $1000''\<rparr>) issues
                    else issues)
      in issues)"

definition getAlbums :: "'s Server \<Rightarrow> ResponseWriter \<Rightarrow> Request \<Rightarrow> 's \<Rightarrow> ResponseWriter \<times> 's" where
  "getAlbums s w r st =
     (let ((albums, err), st') = GetAlbums (db s) st
      in if err \<noteq> None
         then (jsonError w StatusInternalServerError ErrorDatabase None, st')
         else (writeJSON w StatusOK (VAlbums albums), st'))"

definition addAlbum :: "'s Server \<Rightarrow> ResponseWriter \<Rightarrow> Request \<Rightarrow> 's \<Rightarrow> ResponseWriter \<times> 's" where
  "addAlbum s w r st =
     (let (w1, ok, album) = readJSON w r \<lparr>ID = [], Title = [], Artist = [], Price = 0\<rparr>
      in if \<not> ok then (w1, st)
         else
           (let issues = validate album
            in if length issues > 0
               then (jsonError w1 StatusBadRequest ErrorValidation (Some issues), st)
               else
                 (let (err, st') = AddAlbum (db s) album st
                  in if errors_Is err ErrAlreadyExists
                     then (jsonError w1 StatusConflict ErrorAlreadyExists None, st')
                     else if err \<noteq> None
                     then (jsonError w1 StatusInternalServerError ErrorDatabase None, st')
                     else (writeJSON w1 StatusCreated (VAlbum album), st'))))"

definition getAlbumByID ::
  "'s Server \<Rightarrow> ResponseWriter \<Rightarrow> Request \<Rightarrow> string \<Rightarrow> 's \<Rightarrow> ResponseWriter \<times> 's" where
  "getAlbumByID s w r albumID st =
     (let ((album, err), st') = GetAlbumByID (db s) albumID st
      in if errors_Is err ErrDoesNotExist
         then (jsonError w StatusNotFound ErrorNotFound None, st')
         else if err \<noteq> None
         then (jsonError w StatusInternalServerError ErrorDatabase None, st')
         else (writeJSON w StatusOK (VAlbum album), st'))"

text \<open>
  \<^verbatim>\<open>reAlbumsID.FindStringSubmatch\<close> for the pattern \<^verbatim>\<open>^/albums/([^/]+)$\<close>: the
  whole match and the group, or no match (the empty list). The group is what follows
  the prefix, when that is not empty and has no slash.
\<close>

definition reAlbumsID :: "string \<Rightarrow> string list" where
  "reAlbumsID path =
     (let n = length ''/albums/''; rest = drop n path
      in if take n path = ''/albums/'' \<and> rest \<noteq> [] \<and> CHR ''/'' \<notin> set rest
         then [path, rest]
         else [])"

text \<open>
  \<^verbatim>\<open>match\<close>: the groups are stored into the variables by index; more groups than
  variables is an index out of range, a panic, which is \<^term>\<open>None\<close> here.
\<close>

definition match ::
  "string \<Rightarrow> (string \<Rightarrow> string list) \<Rightarrow> string list \<Rightarrow> (bool \<times> string list) option" where
  "match path pattern vars =
     (let matches = pattern path
      in if length matches \<le> 0 then Some (False, vars)
         else if length vars < length (tl matches) then None
         else Some (True, tl matches @ drop (length (tl matches)) vars))"

text \<open>\<^verbatim>\<open>ServeHTTP\<close>; \<^term>\<open>None\<close> is a panic.\<close>

definition ServeHTTP ::
  "'s Server \<Rightarrow> ResponseWriter \<Rightarrow> Request \<Rightarrow> 's \<Rightarrow> (ResponseWriter \<times> 's) option" where
  "ServeHTTP s w r st =
     (let path = Path r
      in if path = ''/albums'' then
           (if Method r = ''GET'' then Some (getAlbums s w r st)
            else if Method r = ''POST'' then Some (addAlbum s w r st)
            else Some (jsonError (Header_Set ''Allow'' ''GET, POST'' w)
                         StatusMethodNotAllowed ErrorMethodNotAllowed None, st))
         else
           (case match path reAlbumsID [[]] of
              None \<Rightarrow> None
            | Some (True, vars) \<Rightarrow>
                (if Method r = ''GET'' then Some (getAlbumByID s w r (hd vars) st)
                 else Some (jsonError (Header_Set ''Allow'' ''GET'' w)
                              StatusMethodNotAllowed ErrorMethodNotAllowed None, st))
            | Some (False, vars) \<Rightarrow>
                Some (jsonError w StatusNotFound ErrorNotFound None, st)))"

text \<open>
  \<^verbatim>\<open>serve\<close> of the tests: one request against a fresh recorder, giving the recorded
  response and the state of the database afterwards.
\<close>

definition serve :: "'s Server \<Rightarrow> Request \<Rightarrow> 's \<Rightarrow> (Response \<times> 's) option" where
  "serve s r st =
     (case ServeHTTP s NewRecorder r st of
        None \<Rightarrow> None
      | Some (w, st') \<Rightarrow> Some (Result w, st'))"

section \<open>Fixtures\<close>

text \<open>
  A run of inserts, as \<^verbatim>\<open>main\<close> and the tests make them (the errors are dropped
  there too), the two albums of \<^verbatim>\<open>main\<close>, and the database and server of
  \<^verbatim>\<open>newTestServer\<close>, which inserts \<^verbatim>\<open>a2\<close> before \<^verbatim>\<open>a1\<close>.
\<close>

definition AddAlbums :: "Album list \<Rightarrow> MemoryDatabase \<Rightarrow> MemoryDatabase" where
  "AddAlbums es d = fold (\<lambda>e d. snd (MemoryDatabase_AddAlbum e d)) es d"

definition album_a1 :: Album where
  "album_a1 = \<lparr>ID = ''a1'', Title = ''9th Symphony'', Artist = ''Beethoven'', Price = 795\<rparr>"

definition album_a2 :: Album where
  "album_a2 = \<lparr>ID = ''a2'', Title = ''Hey Jude'', Artist = ''The Beatles'', Price = 2000\<rparr>"

definition newTestDatabase :: MemoryDatabase where
  "newTestDatabase = AddAlbums [album_a2, album_a1] NewMemoryDatabase"

definition newTestServer :: "MemoryDatabase Server" where
  "newTestServer = NewServer memoryDatabase"

text \<open>
  The album and request body of \<^verbatim>\<open>TestAddAlbumCreated\<close>; \<^verbatim>\<open>newRequest\<close> of the tests,
  for a url that is a plain path (no query, no fragment, no escape), which is then
  \<^verbatim>\<open>r.URL.Path\<close>; \<open>noBody\<close>, the body of a request whose handler never reads it (the
  GET and PUT requests below); and a server over the failing database.
\<close>

definition album_a9 :: Album where
  "album_a9 = \<lparr>ID = ''a9'', Title = ''Pianoman'', Artist = ''Billy Joel'', Price = 1234\<rparr>"

definition body_a9 :: json where
  "body_a9 = JObject [(''id'', JString ''a9''), (''title'', JString ''Pianoman''),
                      (''artist'', JString ''Billy Joel''), (''price'', JNumber 1234)]"

definition newRequest :: "string \<Rightarrow> string \<Rightarrow> reader \<Rightarrow> Request" where
  "newRequest method url body = \<lparr>Method = method, Path = url, ReqBody = body\<rparr>"

definition noBody :: reader where
  "noBody = BytesReader (NotJSON ''unexpected end of JSON input'')"

definition errorServer :: "unit Server" where
  "errorServer = NewServer errorDatabase"

text \<open>
  A database whose list fails with \<^verbatim>\<open>ErrDoesNotExist\<close>: the interface lets
  \<^verbatim>\<open>GetAlbums\<close> return any error.
\<close>

definition missingDatabase :: "unit Database" where
  "missingDatabase =
     \<lparr>GetAlbums = (\<lambda>s. (([], Some ErrDoesNotExist), s)),
      GetAlbumByID = (\<lambda>i s. ((\<lparr>ID = [], Title = [], Artist = [], Price = 0\<rparr>,
                                Some ErrDoesNotExist), s)),
      AddAlbum = (\<lambda>a s. (None, s))\<rparr>"

text \<open>The request of \<^verbatim>\<open>TestAddAlbumAlreadyExists\<close> and the album it decodes to.\<close>

definition album_foo :: Album where
  "album_foo = \<lparr>ID = ''a2'', Title = ''Foo'', Artist = ''Bar'', Price = 0\<rparr>"

definition body_foo :: json where
  "body_foo = JObject [(''id'', JString ''a2''), (''title'', JString ''Foo''),
                       (''artist'', JString ''Bar'')]"

section \<open>Reading replies\<close>

text \<open>
  What a client reads off a reply: a member of a JSON object, the error kinds of the
  envelope, and the shapes a reply of the server can have (a list of albums, one album,
  an envelope without data, an envelope with data).
\<close>

definition json_member :: "string \<Rightarrow> json \<Rightarrow> json option" where
  "json_member k j = (case j of JObject kvs \<Rightarrow> map_of kvs k | _ \<Rightarrow> None)"

definition error_kinds :: "string list" where
  "error_kinds = [ErrorAlreadyExists, ErrorDatabase, ErrorInternal, ErrorMalformedJSON,
                  ErrorMethodNotAllowed, ErrorNotFound, ErrorValidation]"

definition reply_ok :: "Response \<Rightarrow> bool" where
  "reply_ok resp =
     (Header resp ''Content-Type'' = Some ''application/json; charset=utf-8'' \<and>
      ((StatusCode resp = 200 \<and> (\<exists>as. Body resp = [JSONBody (JArray (map marshal_Album as))])) \<or>
       (StatusCode resp \<in> {200, 201} \<and> (\<exists>a. Body resp = [JSONBody (marshal_Album a)])) \<or>
       (StatusCode resp \<in> {404, 405, 409, 500} \<and>
        (\<exists>k \<in> set error_kinds. Body resp =
           [JSONBody (JObject [(''status'', JNumber (StatusCode resp)), (''error'', JString k)])])) \<or>
       (StatusCode resp = 400 \<and>
        (\<exists>k \<in> set error_kinds. \<exists>m. m \<noteq> [] \<and> Body resp =
           [JSONBody (JObject [(''status'', JNumber 400), (''error'', JString k),
                               (''data'', marshal_map m)])]))))"

text \<open>
  The replies the tests expect: a JSON reply with a status, the error envelope without
  data and with data (\<^verbatim>\<open>ensureError\<close>), and the two issues of the validation.
\<close>

definition jsonReply :: "int \<Rightarrow> json \<Rightarrow> Response" where
  "jsonReply status j =
     \<lparr>StatusCode = status,
      Header = [''Content-Type'' \<mapsto> ''application/json; charset=utf-8''],
      Body = [JSONBody j]\<rparr>"

definition errorReply :: "int \<Rightarrow> string \<Rightarrow> Response" where
  "errorReply status kind =
     jsonReply status (JObject [(''status'', JNumber status), (''error'', JString kind)])"

definition errorReplyData :: "int \<Rightarrow> string \<Rightarrow> json \<Rightarrow> Response" where
  "errorReplyData status kind data =
     jsonReply status
       (JObject [(''status'', JNumber status), (''error'', JString kind), (''data'', data)])"

definition required :: any where
  "required = AnyIssue \<lparr>issue_Error = ''required'', issue_Message = []\<rparr>"

definition out_of_range :: any where
  "out_of_range = AnyIssue \<lparr>issue_Error = ''out-of-range'',
                              issue_Message = ''price must be between 0 and $1000''\<rparr>"

section \<open>Properties of the store\<close>

lemma store_inv_New: "store_inv NewMemoryDatabase"
  by (simp add: store_inv_def NewMemoryDatabase_def)

lemma store_inv_AddAlbum:
  "store_inv d \<Longrightarrow> store_inv (snd (MemoryDatabase_AddAlbum album d))"
  by (auto simp: store_inv_def MemoryDatabase_AddAlbum_def map_of_eq_None_iff
           split: option.splits)

lemma newTestDatabase_eq:
  "newTestDatabase = \<lparr>albums = [(''a2'', album_a2), (''a1'', album_a1)]\<rparr>"
  by (simp add: newTestDatabase_def AddAlbums_def MemoryDatabase_AddAlbum_def NewMemoryDatabase_def album_a1_def album_a2_def)

lemma map_of_AddAlbum:
  "map_of (albums (snd (MemoryDatabase_AddAlbum e d))) = [ID e \<mapsto> e] ++ map_of (albums d)"
  by (auto simp: MemoryDatabase_AddAlbum_def map_of_append fun_eq_iff map_add_def
           split: option.splits)

lemma map_of_AddAlbums:
  "map_of (albums (AddAlbums es d)) = map_of (map (\<lambda>e. (ID e, e)) es) ++ map_of (albums d)"
proof (induction es arbitrary: d)
  case Nil
  then show ?case by (simp add: AddAlbums_def)
next
  case (Cons e es)
  have "AddAlbums (e # es) d = AddAlbums es (snd (MemoryDatabase_AddAlbum e d))"
    by (simp add: AddAlbums_def)
  then show ?case
    by (auto simp: Cons.IH map_of_AddAlbum fun_eq_iff map_add_def split: option.splits)
qed

lemma store_inv_AddAlbums: "store_inv d \<Longrightarrow> store_inv (AddAlbums es d)"
  by (induction es arbitrary: d) (simp_all add: AddAlbums_def store_inv_AddAlbum)

lemma store_inv_reachable: "store_inv (AddAlbums es NewMemoryDatabase)"
  by (rule store_inv_AddAlbums [OF store_inv_New])

lemma store_inv_keys: "store_inv d \<Longrightarrow> map ID (map snd (albums d)) = map fst (albums d)"
  by (auto simp: store_inv_def list_all_iff)

lemma GetAlbums_layout:
  assumes "store_inv d1" "store_inv d2" "map_of (albums d1) = map_of (albums d2)"
  shows "sort_key ID (map snd (albums d1)) = sort_key ID (map snd (albums d2))"
proof -
  let ?l1 = "map snd (albums d1)" and ?l2 = "map snd (albums d2)"
  have dk: "distinct (map fst (albums d1))" "distinct (map fst (albums d2))"
    using assms by (simp_all add: store_inv_def)
  then have s: "set (albums d1) = set (albums d2)"
    using assms(3) map_of_inject_set by blast
  have d1: "distinct (map ID ?l1)" and d2: "distinct (map ID ?l2)"
    using dk assms by (simp_all only: store_inv_keys)
  have "sorted (map ID (sort_key ID ?l1))" "sorted (map ID (sort_key ID ?l2))" by simp_all
  moreover have "distinct (map ID (sort_key ID ?l1))" "distinct (map ID (sort_key ID ?l2))"
    using d1 d2 by (metis distinct_map distinct_sort set_sort)+
  moreover have "set (map ID (sort_key ID ?l1)) = set (map ID (sort_key ID ?l2))"
    using s by simp
  ultimately have m: "map ID (sort_key ID ?l1) = map ID (sort_key ID ?l2)"
    by (intro sorted_distinct_set_unique)
  have "inj_on ID (set ?l1)" using d1 by (metis distinct_map)
  then have "inj_on ID (set (sort_key ID ?l1) \<union> set (sort_key ID ?l2))"
    using s by simp
  then show ?thesis using m by (simp add: inj_on_map_eq_map)
qed

lemma json_MarshalIndent_ok: "json_MarshalIndent v = (fst (json_MarshalIndent v), None)"
  by (cases v) simp_all

lemma writeJSON_eq:
  "writeJSON w status v =
     Write (JSONBody (fst (json_MarshalIndent v)))
       (WriteHeader status (Header_Set ''Content-Type'' ''application/json; charset=utf-8'' w))"
  by (subst writeJSON_def, subst json_MarshalIndent_ok) (simp add: Let_def)

lemma Result_writeJSON:
  "\<not> wroteHeader w \<Longrightarrow>
   Result (writeJSON w status v) =
     \<lparr>StatusCode = status,
      Header = (HeaderMap w)(''Content-Type'' \<mapsto> ''application/json; charset=utf-8''),
      Body = Written w @ [JSONBody (fst (json_MarshalIndent v))]\<rparr>"
  by (simp add: writeJSON_eq Result_def Write_def WriteHeader_def Header_Set_def)

lemma Result_jsonError:
  "\<not> wroteHeader w \<Longrightarrow>
   Result (jsonError w status kind data) =
     \<lparr>StatusCode = status,
      Header = (HeaderMap w)(''Content-Type'' \<mapsto> ''application/json; charset=utf-8''),
      Body = Written w @
        [JSONBody (marshal_errorResponse \<lparr>Status = status, Error = kind, Data = data\<rparr>)]\<rparr>"
  by (simp add: jsonError_def Result_writeJSON)

lemma map_of_pairs_member:
  "distinct (map ID es) \<Longrightarrow> e \<in> set es \<Longrightarrow> map_of (map (\<lambda>e. (ID e, e)) es) (ID e) = Some e"
  by (induction es) (auto simp: rev_image_eqI)

lemma map_of_pairs_perm:
  assumes "distinct (map ID es)" "mset es' = mset es"
  shows "map_of (map (\<lambda>e. (ID e, e)) es') = map_of (map (\<lambda>e. (ID e, e)) es)"
proof -
  have "mset (map ID es') = mset (map ID es)" using assms(2) by simp
  then have d': "distinct (map ID es')"
    using assms(1) mset_eq_imp_distinct_iff by blast
  have s: "set es' = set es" using assms(2) by (rule mset_eq_setD)
  have k1: "distinct (map fst (map (\<lambda>e. (ID e, e)) es'))"
    using d' by (simp add: comp_def)
  have k2: "distinct (map fst (map (\<lambda>e. (ID e, e)) es))"
    using assms(1) by (simp add: comp_def)
  have "set (map (\<lambda>e. (ID e, e)) es') = set (map (\<lambda>e. (ID e, e)) es)"
    using s by simp
  then show ?thesis
    using map_of_inject_set [OF k1 k2] by blast
qed

lemma listed_strictly_sorted:
  assumes "store_inv d"
  shows "sorted_wrt (\<lambda>a b. ID a < ID b) (sort_key ID (map snd (albums d)))"
proof -
  let ?l = "sort_key ID (map snd (albums d))"
  have "distinct (map ID (map snd (albums d)))"
    using assms by (simp only: store_inv_keys) (simp add: store_inv_def)
  then have "distinct (map ID ?l)"
    by (metis distinct_map distinct_sort set_sort)
  moreover have "sorted (map ID ?l)" by simp
  ultimately have "sorted_wrt (<) (map ID ?l)" by (simp add: strict_sorted_iff)
  then show ?thesis by (simp add: sorted_wrt_map)
qed

lemma stored_kept:
  assumes "store_inv d" "(k, a) \<in> set (albums d)"
  shows "(k, a) \<in> set (albums (AddAlbums es d))"
proof -
  have "map_of (albums d) k = Some a"
    using assms by (simp add: store_inv_def)
  then have "map_of (albums (AddAlbums es d)) k = Some a"
    by (simp add: map_of_AddAlbums map_add_def)
  then show ?thesis by (rule map_of_SomeD)
qed

lemma inserted_stored:
  assumes "distinct (map ID es)" "e \<in> set es" "map_of (albums d) (ID e) = None"
  shows "(ID e, e) \<in> set (albums (AddAlbums es d))"
proof -
  have "map_of (albums (AddAlbums es d)) (ID e) = Some e"
    using assms by (simp add: map_of_AddAlbums map_add_def map_of_pairs_member)
  then show ?thesis by (rule map_of_SomeD)
qed

text \<open>
  C1. In every store state, inserting an album whose ID is already a key fails with
  \<^const>\<open>ErrAlreadyExists\<close> and returns the store as it was, so the stored album of that
  ID is still the old one; inserting an album whose ID is not a key succeeds, the new
  store maps the ID to exactly that album and every other ID to what it had before.
\<close>

theorem AddAlbum_conflict_or_insert:
  "(\<forall>old. map_of (albums d) (ID e) = Some old \<longrightarrow>
      MemoryDatabase_AddAlbum e d = (Some ErrAlreadyExists, d) \<and>
      MemoryDatabase_GetAlbumByID (ID e) (snd (MemoryDatabase_AddAlbum e d)) = ((old, None), d)) \<and>
   (map_of (albums d) (ID e) = None \<longrightarrow>
      fst (MemoryDatabase_AddAlbum e d) = None \<and>
      albums (snd (MemoryDatabase_AddAlbum e d)) = albums d @ [(ID e, e)] \<and>
      map_of (albums (snd (MemoryDatabase_AddAlbum e d))) = (map_of (albums d))(ID e \<mapsto> e))"
  by (auto simp: MemoryDatabase_AddAlbum_def MemoryDatabase_GetAlbumByID_def map_of_append
        fun_eq_iff map_add_def split: option.splits)

theorem AddAlbum_conflict_or_insert_witness:
  "map_of (albums newTestDatabase) (ID (album_a2\<lparr>Title := ''Foo''\<rparr>)) = Some album_a2 \<and>
   MemoryDatabase_AddAlbum (album_a2\<lparr>Title := ''Foo''\<rparr>) newTestDatabase =
     (Some ErrAlreadyExists, newTestDatabase) \<and>
   MemoryDatabase_GetAlbumByID (ID (album_a2\<lparr>Title := ''Foo''\<rparr>))
     (snd (MemoryDatabase_AddAlbum (album_a2\<lparr>Title := ''Foo''\<rparr>) newTestDatabase)) =
     ((album_a2, None), newTestDatabase) \<and>
   map_of (albums NewMemoryDatabase) (ID album_a1) = None \<and>
   fst (MemoryDatabase_AddAlbum album_a1 NewMemoryDatabase) = None \<and>
   albums (snd (MemoryDatabase_AddAlbum album_a1 NewMemoryDatabase)) = [(''a1'', album_a1)]"
proof -
  have h1: "map_of (albums newTestDatabase) (ID (album_a2\<lparr>Title := ''Foo''\<rparr>)) = Some album_a2"
    by (simp add: newTestDatabase_eq album_a2_def)
  have h2: "map_of (albums NewMemoryDatabase) (ID album_a1) = None"
    by (simp add: NewMemoryDatabase_def)
  have a1: "albums NewMemoryDatabase @ [(ID album_a1, album_a1)] = [(''a1'', album_a1)]"
    by (simp add: NewMemoryDatabase_def album_a1_def)
  show ?thesis
    using AddAlbum_conflict_or_insert [of newTestDatabase "album_a2\<lparr>Title := ''Foo''\<rparr>"]
          AddAlbum_conflict_or_insert [of NewMemoryDatabase album_a1] h1 h2 a1
    by metis
qed

text \<open>
  C3. From any store state that satisfies the invariant, after any run of inserts whose
  IDs are pairwise distinct, \<^verbatim>\<open>GetAlbums\<close> succeeds, leaves the store as it is, and
  returns a list that holds every stored album exactly once (the same multiset as the
  values of the map), in strictly ascending order of ID; it holds every album of the run
  whose ID was free and every album stored before. The list is the same for every
  reordering of the run, and the same for every store with the same key-to-album mapping,
  whatever the order of its entries.
\<close>

theorem GetAlbums_sorted_complete:
  "store_inv d \<Longrightarrow> distinct (map ID es) \<Longrightarrow>
   (let d' = AddAlbums es d; listed = fst (fst (MemoryDatabase_GetAlbums d')) in
      snd (fst (MemoryDatabase_GetAlbums d')) = None \<and>
      snd (MemoryDatabase_GetAlbums d') = d' \<and>
      mset listed = mset (map snd (albums d')) \<and>
      sorted_wrt (\<lambda>a b. ID a < ID b) listed \<and>
      (\<forall>e \<in> set es. map_of (albums d) (ID e) = None \<longrightarrow> e \<in> set listed) \<and>
      (\<forall>a \<in> snd ` set (albums d). a \<in> set listed) \<and>
      (\<forall>es'. mset es' = mset es \<longrightarrow>
         fst (fst (MemoryDatabase_GetAlbums (AddAlbums es' d))) = listed) \<and>
      (\<forall>d2. store_inv d2 \<and> map_of (albums d2) = map_of (albums d') \<longrightarrow>
         fst (fst (MemoryDatabase_GetAlbums d2)) = listed))"
proof -
  assume inv: "store_inv d" and dist: "distinct (map ID es)"
  let ?d' = "AddAlbums es d"
  let ?listed = "sort_key ID (map snd (albums ?d'))"
  have inv': "store_inv ?d'" using inv by (rule store_inv_AddAlbums)
  have sorted: "sorted_wrt (\<lambda>a b. ID a < ID b) ?listed"
    using inv' by (rule listed_strictly_sorted)
  have new: "\<forall>e \<in> set es. map_of (albums d) (ID e) = None \<longrightarrow> e \<in> set ?listed"
  proof (intro ballI impI)
    fix e assume "e \<in> set es" "map_of (albums d) (ID e) = None"
    then have "(ID e, e) \<in> set (albums ?d')" by (rule inserted_stored [OF dist])
    then have "snd (ID e, e) \<in> snd ` set (albums ?d')" by (rule imageI)
    then show "e \<in> set ?listed" by simp
  qed
  have old: "\<forall>a \<in> snd ` set (albums d). a \<in> set ?listed"
  proof
    fix a assume "a \<in> snd ` set (albums d)"
    then obtain k where "(k, a) \<in> set (albums d)" by auto
    then have "(k, a) \<in> set (albums ?d')" by (rule stored_kept [OF inv])
    then have "snd (k, a) \<in> snd ` set (albums ?d')" by (rule imageI)
    then show "a \<in> set ?listed" by simp
  qed
  have perm: "\<forall>es'. mset es' = mset es \<longrightarrow> sort_key ID (map snd (albums (AddAlbums es' d))) = ?listed"
  proof (intro allI impI)
    fix es' assume p: "mset es' = mset es"
    have "map_of (albums (AddAlbums es' d)) = map_of (albums ?d')"
      by (simp only: map_of_AddAlbums map_of_pairs_perm [OF dist p])
    then show "sort_key ID (map snd (albums (AddAlbums es' d))) = ?listed"
      by (rule GetAlbums_layout [OF store_inv_AddAlbums [OF inv] inv'])
  qed
  have layout: "\<forall>d2. store_inv d2 \<and> map_of (albums d2) = map_of (albums ?d') \<longrightarrow>
     sort_key ID (map snd (albums d2)) = ?listed"
  proof (intro allI impI)
    fix d2 assume "store_inv d2 \<and> map_of (albums d2) = map_of (albums ?d')"
    then show "sort_key ID (map snd (albums d2)) = ?listed"
      using inv' GetAlbums_layout by blast
  qed
  have m: "mset ?listed = mset (map snd (albums ?d'))" by simp
  show ?thesis
    unfolding Let_def MemoryDatabase_GetAlbums_def fst_conv snd_conv
    by (intro conjI refl m sorted new old perm layout)
qed

theorem GetAlbums_sorted_complete_witness:
  "store_inv NewMemoryDatabase \<and> distinct (map ID [album_a2, album_a1]) \<and>
   fst (fst (MemoryDatabase_GetAlbums (AddAlbums [album_a2, album_a1] NewMemoryDatabase))) =
     [album_a1, album_a2] \<and>
   fst (fst (MemoryDatabase_GetAlbums (AddAlbums [album_a1, album_a2] NewMemoryDatabase))) =
     [album_a1, album_a2] \<and>
   sorted_wrt (\<lambda>a b. ID a < ID b) [album_a1, album_a2] \<and>
   map_of (albums NewMemoryDatabase) (ID album_a2) = None \<and> album_a2 \<in> set [album_a1, album_a2]"
proof -
  let ?listed = "fst (fst (MemoryDatabase_GetAlbums (AddAlbums [album_a2, album_a1] NewMemoryDatabase)))"
  have h1: "store_inv NewMemoryDatabase" by (rule store_inv_New)
  have h2: "distinct (map ID [album_a2, album_a1])"
    by (simp add: album_a1_def album_a2_def)
  have ev: "?listed = [album_a1, album_a2]"
    by (simp add: AddAlbums_def MemoryDatabase_AddAlbum_def MemoryDatabase_GetAlbums_def
          NewMemoryDatabase_def album_a1_def album_a2_def)
  note t = GetAlbums_sorted_complete [OF h1 h2, unfolded Let_def]
  have p: "mset [album_a1, album_a2] = mset [album_a2, album_a1]" by (simp add: add_mset_commute)
  have r1: "fst (fst (MemoryDatabase_GetAlbums (AddAlbums [album_a1, album_a2] NewMemoryDatabase))) = ?listed"
    using t p by blast
  have r2: "sorted_wrt (\<lambda>a b. ID a < ID b) ?listed" using t by blast
  have h3: "map_of (albums NewMemoryDatabase) (ID album_a2) = None"
    by (simp add: NewMemoryDatabase_def)
  have "\<forall>e \<in> set [album_a2, album_a1].
          map_of (albums NewMemoryDatabase) (ID e) = None \<longrightarrow> e \<in> set ?listed"
    using t by blast
  then have r3: "album_a2 \<in> set ?listed" using h3 by simp
  show ?thesis using h1 h2 r1 r2 h3 r3 unfolding ev by (intro conjI refl)
qed

text \<open>
  C7. For an ID that is not in the store, \<^verbatim>\<open>GetAlbumByID\<close> returns the error
  \<^const>\<open>ErrDoesNotExist\<close> (never a \<^verbatim>\<open>nil\<close> error beside the zero album), and the
  handler answers 404 with the \<^verbatim>\<open>not-found\<close> envelope, not an empty album; for an ID
  that is in the store it returns the stored album with no error, and the handler answers
  200 with that album.
\<close>

theorem GetAlbumByID_absent_or_present:
  "(map_of (albums d) i = None \<longrightarrow>
      MemoryDatabase_GetAlbumByID i d =
        ((\<lparr>ID = [], Title = [], Artist = [], Price = 0\<rparr>, Some ErrDoesNotExist), d) \<and>
      Result (fst (getAlbumByID (NewServer memoryDatabase) NewRecorder r i d)) =
        \<lparr>StatusCode = 404,
         Header = [''Content-Type'' \<mapsto> ''application/json; charset=utf-8''],
         Body = [JSONBody (JObject [(''status'', JNumber 404), (''error'', JString ''not-found'')])]\<rparr>) \<and>
   (\<forall>a. map_of (albums d) i = Some a \<longrightarrow>
      MemoryDatabase_GetAlbumByID i d = ((a, None), d) \<and>
      Result (fst (getAlbumByID (NewServer memoryDatabase) NewRecorder r i d)) =
        \<lparr>StatusCode = 200,
         Header = [''Content-Type'' \<mapsto> ''application/json; charset=utf-8''],
         Body = [JSONBody (marshal_Album a)]\<rparr>)"
proof -
  have w0: "\<not> wroteHeader NewRecorder" "HeaderMap NewRecorder = Map.empty" "Written NewRecorder = []"
    by (simp_all add: NewRecorder_def)
  show ?thesis
    by (simp add: MemoryDatabase_GetAlbumByID_def getAlbumByID_def NewServer_def memoryDatabase_def
          Result_jsonError Result_writeJSON w0 marshal_errorResponse_def StatusNotFound_def
          ErrorNotFound_def StatusOK_def)
qed

theorem GetAlbumByID_absent_or_present_witness:
  "map_of (albums newTestDatabase) ''a3'' = None \<and>
   MemoryDatabase_GetAlbumByID ''a3'' newTestDatabase =
     ((\<lparr>ID = [], Title = [], Artist = [], Price = 0\<rparr>, Some ErrDoesNotExist), newTestDatabase) \<and>
   map_of (albums newTestDatabase) ''a1'' = Some album_a1 \<and>
   MemoryDatabase_GetAlbumByID ''a1'' newTestDatabase = ((album_a1, None), newTestDatabase)"
proof -
  have h1: "map_of (albums newTestDatabase) ''a3'' = None"
    by (simp add: newTestDatabase_eq)
  have h2: "map_of (albums newTestDatabase) ''a1'' = Some album_a1"
    by (simp add: newTestDatabase_eq)
  show ?thesis
    using GetAlbumByID_absent_or_present [of newTestDatabase "''a3''"]
          GetAlbumByID_absent_or_present [of newTestDatabase "''a1''"] h1 h2
    by blast
qed

section \<open>Properties of the server\<close>

lemma reply_jsonError_nil:
  assumes "\<not> wroteHeader w" "Written w = []" "status \<in> {404, 405, 409, 500}" "k \<in> set error_kinds"
  shows "reply_ok (Result (jsonError w status k None))"
  using assms(3,4) unfolding reply_ok_def Result_jsonError [OF assms(1)] assms(2)
  by (auto simp: marshal_errorResponse_def)

lemma reply_jsonError_data:
  assumes "\<not> wroteHeader w" "Written w = []" "m \<noteq> []" "k \<in> set error_kinds"
  shows "reply_ok (Result (jsonError w 400 k (Some m)))"
  using assms(3,4) unfolding reply_ok_def Result_jsonError [OF assms(1)] assms(2)
  by (auto simp: marshal_errorResponse_def)

lemma reply_writeJSON_album:
  assumes "\<not> wroteHeader w" "Written w = []" "status \<in> {200, 201}"
  shows "reply_ok (Result (writeJSON w status (VAlbum a)))"
  using assms(3) unfolding reply_ok_def Result_writeJSON [OF assms(1)] assms(2)
  by auto

lemma reply_writeJSON_albums:
  assumes "\<not> wroteHeader w" "Written w = []"
  shows "reply_ok (Result (writeJSON w 200 (VAlbums as)))"
  unfolding reply_ok_def Result_writeJSON [OF assms(1)] assms(2)
  by auto

lemma kinds:
  "ErrorAlreadyExists \<in> set error_kinds" "ErrorDatabase \<in> set error_kinds"
  "ErrorInternal \<in> set error_kinds" "ErrorMalformedJSON \<in> set error_kinds"
  "ErrorMethodNotAllowed \<in> set error_kinds" "ErrorNotFound \<in> set error_kinds"
  "ErrorValidation \<in> set error_kinds"
  by (simp_all add: error_kinds_def)

lemmas statuses = StatusOK_def StatusCreated_def StatusBadRequest_def StatusNotFound_def
  StatusMethodNotAllowed_def StatusConflict_def StatusInternalServerError_def

lemma reply_getAlbums:
  assumes "\<not> wroteHeader w" "Written w = []"
  shows "reply_ok (Result (fst (getAlbums s w r st)))"
  by (auto simp: getAlbums_def statuses kinds split: prod.splits
      intro!: reply_jsonError_nil [OF assms] reply_writeJSON_albums [OF assms])

lemma reply_getAlbumByID:
  assumes "\<not> wroteHeader w" "Written w = []"
  shows "reply_ok (Result (fst (getAlbumByID s w r i st)))"
  by (auto simp: getAlbumByID_def statuses kinds split: prod.splits
      intro!: reply_jsonError_nil [OF assms] reply_writeJSON_album [OF assms])

lemma addAlbum_read_error:
  "io_ReadAll (ReqBody r) = Inl e \<Longrightarrow>
   addAlbum s w r st = (jsonError w StatusInternalServerError ErrorInternal None, st)"
  by (simp add: addAlbum_def readJSON_def)

lemma addAlbum_malformed:
  "io_ReadAll (ReqBody r) = Inr b \<Longrightarrow>
   json_Unmarshal b \<lparr>ID = [], Title = [], Artist = [], Price = 0\<rparr> = (v, Some e) \<Longrightarrow>
   addAlbum s w r st =
     (jsonError w StatusBadRequest ErrorMalformedJSON (Some [(''message'', AnyString (Error_text e))]), st)"
  by (simp add: addAlbum_def readJSON_def)

lemma addAlbum_invalid:
  "io_ReadAll (ReqBody r) = Inr b \<Longrightarrow>
   json_Unmarshal b \<lparr>ID = [], Title = [], Artist = [], Price = 0\<rparr> = (a, None) \<Longrightarrow>
   validate a \<noteq> [] \<Longrightarrow>
   addAlbum s w r st = (jsonError w StatusBadRequest ErrorValidation (Some (validate a)), st)"
  by (simp add: addAlbum_def readJSON_def Let_def)

lemma addAlbum_valid:
  "io_ReadAll (ReqBody r) = Inr b \<Longrightarrow>
   json_Unmarshal b \<lparr>ID = [], Title = [], Artist = [], Price = 0\<rparr> = (a, None) \<Longrightarrow>
   validate a = [] \<Longrightarrow>
   addAlbum s w r st =
     (if errors_Is (fst (AddAlbum (db s) a st)) ErrAlreadyExists
      then (jsonError w StatusConflict ErrorAlreadyExists None, snd (AddAlbum (db s) a st))
      else if fst (AddAlbum (db s) a st) \<noteq> None
      then (jsonError w StatusInternalServerError ErrorDatabase None, snd (AddAlbum (db s) a st))
      else (writeJSON w StatusCreated (VAlbum a), snd (AddAlbum (db s) a st)))"
  by (simp add: addAlbum_def readJSON_def Let_def split: prod.splits)

lemma reply_addAlbum:
  assumes "\<not> wroteHeader w" "Written w = []"
  shows "reply_ok (Result (fst (addAlbum s w r st)))"
proof (cases "io_ReadAll (ReqBody r)")
  case (Inl e)
  show ?thesis
    by (simp add: addAlbum_read_error [OF Inl] statuses kinds reply_jsonError_nil [OF assms])
next
  case (Inr b)
  obtain a err where u: "json_Unmarshal b \<lparr>ID = [], Title = [], Artist = [], Price = 0\<rparr> = (a, err)"
    by (cases "json_Unmarshal b \<lparr>ID = [], Title = [], Artist = [], Price = 0\<rparr>")
  show ?thesis
  proof (cases err)
    case (Some e)
    show ?thesis
      using u unfolding Some
      by (simp add: addAlbum_malformed [OF Inr] statuses kinds reply_jsonError_data [OF assms])
  next
    case None
    show ?thesis
    proof (cases "validate a = []")
      case True
      show ?thesis
        using u unfolding None
        by (simp add: addAlbum_valid [OF Inr _ True] statuses kinds
              reply_jsonError_nil [OF assms] reply_writeJSON_album [OF assms])
    next
      case False
      show ?thesis
        using u unfolding None
        by (simp add: addAlbum_invalid [OF Inr _ False] statuses kinds
              reply_jsonError_data [OF assms False])
    qed
  qed
qed

lemma match_reAlbumsID:
  "match path reAlbumsID [[]] =
     (if take 8 path = ''/albums/'' \<and> drop 8 path \<noteq> [] \<and> CHR ''/'' \<notin> set (drop 8 path)
      then Some (True, [drop 8 path]) else Some (False, [[]]))"
proof -
  have n: "length ''/albums/'' = (8::nat)" by simp
  show ?thesis unfolding match_def reAlbumsID_def Let_def n by simp
qed

lemma item_path_iff:
  "(take 8 path = ''/albums/'' \<and> drop 8 path \<noteq> [] \<and> CHR ''/'' \<notin> set (drop 8 path)) \<longleftrightarrow>
   (\<exists>i. path = ''/albums/'' @ i \<and> i \<noteq> [] \<and> CHR ''/'' \<notin> set i)"
proof
  assume l: "take 8 path = ''/albums/'' \<and> drop 8 path \<noteq> [] \<and> CHR ''/'' \<notin> set (drop 8 path)"
  have "path = take 8 path @ drop 8 path" by simp
  then have "path = ''/albums/'' @ drop 8 path" using l by metis
  then show "\<exists>i. path = ''/albums/'' @ i \<and> i \<noteq> [] \<and> CHR ''/'' \<notin> set i" using l by blast
next
  assume "\<exists>i. path = ''/albums/'' @ i \<and> i \<noteq> [] \<and> CHR ''/'' \<notin> set i"
  then show "take 8 path = ''/albums/'' \<and> drop 8 path \<noteq> [] \<and> CHR ''/'' \<notin> set (drop 8 path)"
    by auto
qed

lemma ServeHTTP_cases:
  "ServeHTTP s w r st =
     Some (if Path r = ''/albums'' then
             (if Method r = ''GET'' then getAlbums s w r st
              else if Method r = ''POST'' then addAlbum s w r st
              else (jsonError (Header_Set ''Allow'' ''GET, POST'' w)
                      StatusMethodNotAllowed ErrorMethodNotAllowed None, st))
           else if take 8 (Path r) = ''/albums/'' \<and> drop 8 (Path r) \<noteq> [] \<and>
                   CHR ''/'' \<notin> set (drop 8 (Path r)) then
             (if Method r = ''GET'' then getAlbumByID s w r (drop 8 (Path r)) st
              else (jsonError (Header_Set ''Allow'' ''GET'' w)
                      StatusMethodNotAllowed ErrorMethodNotAllowed None, st))
           else (jsonError w StatusNotFound ErrorNotFound None, st))"
  by (simp add: ServeHTTP_def match_reAlbumsID Let_def)

lemma reply_ServeHTTP:
  assumes "\<not> wroteHeader w" "Written w = []"
  shows "\<exists>w' st'. ServeHTTP s w r st = Some (w', st') \<and> reply_ok (Result w')"
proof -
  have g: "\<not> wroteHeader (Header_Set k v w)" "Written (Header_Set k v w) = []" for k v
    using assms by (simp_all add: Header_Set_def)
  have m405: "reply_ok (Result (jsonError (Header_Set k v w) StatusMethodNotAllowed
                 ErrorMethodNotAllowed None))" for k v
    by (rule reply_jsonError_nil [OF g]) (simp_all add: statuses kinds)
  have m404: "reply_ok (Result (jsonError w StatusNotFound ErrorNotFound None))"
    by (rule reply_jsonError_nil [OF assms]) (simp_all add: statuses kinds)
  note h = reply_getAlbums [OF assms] reply_addAlbum [OF assms] reply_getAlbumByID [OF assms]
  let ?res = "the (ServeHTTP s w r st)"
  have "ServeHTTP s w r st = Some ?res" by (simp add: ServeHTTP_cases)
  moreover have "reply_ok (Result (fst ?res))"
    by (simp add: ServeHTTP_cases h m405 m404)
  ultimately show ?thesis by (metis prod.collapse)
qed

lemma reply_serve:
  "\<exists>resp st'. serve s r st = Some (resp, st') \<and> reply_ok resp"
proof -
  have f: "\<not> wroteHeader NewRecorder" "Written NewRecorder = []"
    by (simp_all add: NewRecorder_def)
  from reply_ServeHTTP [OF f, of s r st] obtain w' st'
    where "ServeHTTP s NewRecorder r st = Some (w', st')" "reply_ok (Result w')" by blast
  then show ?thesis by (simp add: serve_def)
qed

lemma Written_writeJSON:
  "Written (writeJSON w status v) = Written w @ [JSONBody (fst (json_MarshalIndent v))]"
  by (simp add: writeJSON_eq Write_def WriteHeader_def Header_Set_def)

lemma marshal_map_nonempty: "m \<noteq> [] \<Longrightarrow> marshal_map m \<noteq> JObject []"
  by (simp add: marshal_map_def) (metis length_0_conv length_sort)

lemma member_marshal_Album:
  "json_member ''data'' (marshal_Album a) = None" "json_member ''status'' (marshal_Album a) = None"
  by (simp_all add: json_member_def marshal_Album_def)

text \<open>
  C8. Whatever the request, the database implementation and its state, the server
  answers, the reply carries the header
  \<^verbatim>\<open>Content-Type: application/json; charset=utf-8\<close>, its body is one JSON value, and that
  value has no \<^verbatim>\<open>data\<close> member unless the member is a non-empty object (never
  \<^verbatim>\<open>null\<close>, never \<^verbatim>\<open>{}\<close>). \<^verbatim>\<open>jsonError\<close> writes exactly the members
  \<^verbatim>\<open>status\<close> and \<^verbatim>\<open>error\<close> when its data is \<^verbatim>\<open>nil\<close> or an empty map, and adds
  \<^verbatim>\<open>data\<close> otherwise. (The plain-text branch of \<^verbatim>\<open>writeJSON\<close> is in the model; it is
  taken only when encoding fails, which no payload of the server does.)
\<close>

theorem replies_are_json_and_omit_empty_data:
  "(\<exists>resp st' j.
      serve s r st = Some (resp, st') \<and>
      Header resp ''Content-Type'' = Some ''application/json; charset=utf-8'' \<and>
      Body resp = [JSONBody j] \<and>
      (json_member ''data'' j = None \<or>
       (\<exists>m. m \<noteq> [] \<and> json_member ''data'' j = Some (marshal_map m) \<and>
            marshal_map m \<noteq> JNull \<and> marshal_map m \<noteq> JObject []))) \<and>
   Written (jsonError w status kind data) =
     Written w @
     [JSONBody (JObject ([(''status'', JNumber status), (''error'', JString kind)] @
                         (if data = None \<or> data = Some [] then []
                          else [(''data'', marshal_map (the data))])))]"
proof -
  obtain resp st' where sv: "serve s r st = Some (resp, st')" and ok: "reply_ok resp"
    using reply_serve [of s r st] by (elim exE conjE)
  have ct: "Header resp ''Content-Type'' = Some ''application/json; charset=utf-8''"
    using ok by (simp add: reply_ok_def)
  have "\<exists>j. Body resp = [JSONBody j] \<and>
      (json_member ''data'' j = None \<or>
       (\<exists>m. m \<noteq> [] \<and> json_member ''data'' j = Some (marshal_map m) \<and>
            marshal_map m \<noteq> JNull \<and> marshal_map m \<noteq> JObject []))"
    using ok unfolding reply_ok_def
  proof (elim conjE disjE exE bexE)
    fix as assume "Body resp = [JSONBody (JArray (map marshal_Album as))]"
    then show ?thesis by (simp add: json_member_def)
  next
    fix a assume "Body resp = [JSONBody (marshal_Album a)]"
    then show ?thesis by (simp add: member_marshal_Album)
  next
    fix k assume "Body resp = [JSONBody (JObject [(''status'', JNumber (StatusCode resp)), (''error'', JString k)])]"
    then show ?thesis by (simp add: json_member_def)
  next
    fix k m assume m: "m \<noteq> []" and
      b: "Body resp = [JSONBody (JObject [(''status'', JNumber 400), (''error'', JString k), (''data'', marshal_map m)])]"
    have "marshal_map m \<noteq> JNull" by (simp add: marshal_map_def)
    then show ?thesis using b m marshal_map_nonempty [OF m] by (auto simp: json_member_def)
  qed
  then have first: "\<exists>resp st' j.
      serve s r st = Some (resp, st') \<and>
      Header resp ''Content-Type'' = Some ''application/json; charset=utf-8'' \<and>
      Body resp = [JSONBody j] \<and>
      (json_member ''data'' j = None \<or>
       (\<exists>m. m \<noteq> [] \<and> json_member ''data'' j = Some (marshal_map m) \<and>
            marshal_map m \<noteq> JNull \<and> marshal_map m \<noteq> JObject []))"
    using sv ct by blast
  have second: "Written (jsonError w status kind data) =
     Written w @
     [JSONBody (JObject ([(''status'', JNumber status), (''error'', JString kind)] @
                         (if data = None \<or> data = Some [] then []
                          else [(''data'', marshal_map (the data))])))]"
    by (cases data) (auto simp: jsonError_def Written_writeJSON marshal_errorResponse_def)
  show ?thesis using first second by (rule conjI)
qed

text \<open>
  C10. A reply written by \<^verbatim>\<open>jsonError\<close> on a writer whose header is not yet sent has
  the HTTP status \<open>status\<close>, and the \<^verbatim>\<open>status\<close> member of its body is that same number.
  For every request, database and state, the reply of the server is either an envelope
  whose \<^verbatim>\<open>status\<close> member equals the HTTP status (400, 404, 405, 409 or 500) and whose
  \<^verbatim>\<open>error\<close> member is one of the seven error kinds, or a success reply (200 or 201)
  without a \<^verbatim>\<open>status\<close> member.
\<close>

theorem envelope_status_is_http_status:
  "(\<not> wroteHeader w \<longrightarrow>
      StatusCode (Result (jsonError w status kind data)) = status \<and>
      (\<exists>j. Body (Result (jsonError w status kind data)) = Written w @ [JSONBody j] \<and>
           json_member ''status'' j = Some (JNumber status) \<and>
           json_member ''error'' j = Some (JString kind))) \<and>
   (\<exists>resp st' j.
      serve s r st = Some (resp, st') \<and> Body resp = [JSONBody j] \<and>
      ((json_member ''status'' j = Some (JNumber (StatusCode resp)) \<and>
        StatusCode resp \<in> {400, 404, 405, 409, 500} \<and>
        (\<exists>k \<in> set error_kinds. json_member ''error'' j = Some (JString k))) \<or>
       (json_member ''status'' j = None \<and> StatusCode resp \<in> {200, 201})))"
proof -
  have first: "\<not> wroteHeader w \<longrightarrow>
      StatusCode (Result (jsonError w status kind data)) = status \<and>
      (\<exists>j. Body (Result (jsonError w status kind data)) = Written w @ [JSONBody j] \<and>
           json_member ''status'' j = Some (JNumber status) \<and>
           json_member ''error'' j = Some (JString kind))"
    by (simp add: Result_jsonError marshal_errorResponse_def json_member_def)
  obtain resp st' where sv: "serve s r st = Some (resp, st')" and ok: "reply_ok resp"
    using reply_serve [of s r st] by (elim exE conjE)
  have "\<exists>j. Body resp = [JSONBody j] \<and>
      ((json_member ''status'' j = Some (JNumber (StatusCode resp)) \<and>
        StatusCode resp \<in> {400, 404, 405, 409, 500} \<and>
        (\<exists>k \<in> set error_kinds. json_member ''error'' j = Some (JString k))) \<or>
       (json_member ''status'' j = None \<and> StatusCode resp \<in> {200, 201}))"
    using ok unfolding reply_ok_def
  proof (elim conjE disjE exE bexE)
    fix as assume "StatusCode resp = 200" "Body resp = [JSONBody (JArray (map marshal_Album as))]"
    then show ?thesis by (simp add: json_member_def)
  next
    fix a assume "StatusCode resp \<in> {200, 201}" "Body resp = [JSONBody (marshal_Album a)]"
    then show ?thesis by (simp add: member_marshal_Album)
  next
    fix k assume "StatusCode resp \<in> {404, 405, 409, 500}" "k \<in> set error_kinds"
      "Body resp = [JSONBody (JObject [(''status'', JNumber (StatusCode resp)), (''error'', JString k)])]"
    then show ?thesis by (auto simp: json_member_def)
  next
    fix k m assume "StatusCode resp = 400" "k \<in> set error_kinds"
      "Body resp = [JSONBody (JObject [(''status'', JNumber 400), (''error'', JString k), (''data'', marshal_map m)])]"
    then show ?thesis by (auto simp: json_member_def)
  qed
  then have second: "\<exists>resp st' j.
      serve s r st = Some (resp, st') \<and> Body resp = [JSONBody j] \<and>
      ((json_member ''status'' j = Some (JNumber (StatusCode resp)) \<and>
        StatusCode resp \<in> {400, 404, 405, 409, 500} \<and>
        (\<exists>k \<in> set error_kinds. json_member ''error'' j = Some (JString k))) \<or>
       (json_member ''status'' j = None \<and> StatusCode resp \<in> {200, 201}))"
    using sv by blast
  show ?thesis using first second by (rule conjI)
qed

theorem envelope_status_is_http_status_witness:
  "\<not> wroteHeader NewRecorder \<and>
   StatusCode (Result (jsonError NewRecorder 404 ErrorNotFound None)) = 404 \<and>
   (\<exists>j. Body (Result (jsonError NewRecorder 404 ErrorNotFound None)) =
          Written NewRecorder @ [JSONBody j] \<and>
        json_member ''status'' j = Some (JNumber 404) \<and>
        json_member ''error'' j = Some (JString ErrorNotFound))"
  using envelope_status_is_http_status [of NewRecorder 404 ErrorNotFound None newTestServer
          "newRequest ''GET'' ''/albums/a3'' noBody" newTestDatabase]
  by (simp add: NewRecorder_def)

lemma fresh_NewRecorder:
  "\<not> wroteHeader NewRecorder" "Written NewRecorder = []" "HeaderMap NewRecorder = Map.empty"
  by (simp_all add: NewRecorder_def)

lemma fresh_Header_Set:
  "\<not> wroteHeader (Header_Set k v NewRecorder)" "Written (Header_Set k v NewRecorder) = []"
  "HeaderMap (Header_Set k v NewRecorder) = [k \<mapsto> v]"
  by (simp_all add: NewRecorder_def Header_Set_def)

lemma serve_collection:
  assumes "Path r = ''/albums''"
  shows "serve s r st =
     (if Method r = ''GET'' then
        Some (Result (fst (getAlbums s NewRecorder r st)), snd (getAlbums s NewRecorder r st))
      else if Method r = ''POST'' then
        Some (Result (fst (addAlbum s NewRecorder r st)), snd (addAlbum s NewRecorder r st))
      else
        Some (\<lparr>StatusCode = 405,
               Header = [''Allow'' \<mapsto> ''GET, POST'',
                         ''Content-Type'' \<mapsto> ''application/json; charset=utf-8''],
               Body = [JSONBody (JObject [(''status'', JNumber 405),
                                          (''error'', JString ''method-not-allowed'')])]\<rparr>, st))"
  by (simp add: serve_def ServeHTTP_cases assms Result_jsonError fresh_Header_Set
        marshal_errorResponse_def statuses ErrorMethodNotAllowed_def split: prod.splits)

lemma serve_item:
  assumes "Path r = ''/albums/'' @ i" "i \<noteq> []" "CHR ''/'' \<notin> set i"
  shows "serve s r st =
     (if Method r = ''GET'' then
        Some (Result (fst (getAlbumByID s NewRecorder r i st)),
              snd (getAlbumByID s NewRecorder r i st))
      else
        Some (\<lparr>StatusCode = 405,
               Header = [''Allow'' \<mapsto> ''GET'',
                         ''Content-Type'' \<mapsto> ''application/json; charset=utf-8''],
               Body = [JSONBody (JObject [(''status'', JNumber 405),
                                          (''error'', JString ''method-not-allowed'')])]\<rparr>, st))"
  using assms(2,3)
  by (simp add: serve_def ServeHTTP_cases assms(1) Result_jsonError fresh_Header_Set
        marshal_errorResponse_def statuses ErrorMethodNotAllowed_def split: prod.splits)

lemma serve_other:
  assumes "Path r \<noteq> ''/albums''"
    and "\<not> (\<exists>i. Path r = ''/albums/'' @ i \<and> i \<noteq> [] \<and> CHR ''/'' \<notin> set i)"
  shows "serve s r st =
     Some (\<lparr>StatusCode = 404,
            Header = [''Content-Type'' \<mapsto> ''application/json; charset=utf-8''],
            Body = [JSONBody (JObject [(''status'', JNumber 404),
                                       (''error'', JString ''not-found'')])]\<rparr>, st)"
proof -
  have n: "(take 8 (Path r) = ''/albums/'' \<and> drop 8 (Path r) \<noteq> [] \<and>
            CHR ''/'' \<notin> set (drop 8 (Path r))) = False"
    using assms(2) item_path_iff [of "Path r"] by blast
  have p: "(Path r = ''/albums'') = False" using assms(1) by simp
  have "ServeHTTP s NewRecorder r st =
          Some (jsonError NewRecorder StatusNotFound ErrorNotFound None, st)"
    by (subst ServeHTTP_cases) (simp only: n p if_False)
  then show ?thesis
    by (simp add: serve_def Result_jsonError fresh_NewRecorder
          marshal_errorResponse_def statuses ErrorNotFound_def)
qed

lemma unmarshal_a9:
  "json_Unmarshal (JSONText body_a9) \<lparr>ID = [], Title = [], Artist = [], Price = 0\<rparr> = (album_a9, None)"
  by (simp add: body_a9_def album_a9_def decode_member_def to_lower_def Let_def)

lemma validate_a9: "validate album_a9 = []"
  by (simp add: validate_def album_a9_def)

lemma getAlbums_memory:
  "getAlbums (NewServer memoryDatabase) w r d =
     (writeJSON w StatusOK (VAlbums (sort_key ID (map snd (albums d)))), d)"
  by (simp add: getAlbums_def NewServer_def memoryDatabase_def MemoryDatabase_GetAlbums_def)

lemma getAlbumByID_memory:
  "getAlbumByID (NewServer memoryDatabase) w r i d =
     (case map_of (albums d) i of
        None \<Rightarrow> (jsonError w StatusNotFound ErrorNotFound None, d)
      | Some a \<Rightarrow> (writeJSON w StatusOK (VAlbum a), d))"
  by (simp add: getAlbumByID_def NewServer_def memoryDatabase_def MemoryDatabase_GetAlbumByID_def
        split: option.splits)

lemma addAlbum_memory:
  assumes "io_ReadAll (ReqBody r) = Inr b"
    and "json_Unmarshal b \<lparr>ID = [], Title = [], Artist = [], Price = 0\<rparr> = (a, None)"
    and "validate a = []"
  shows "addAlbum (NewServer memoryDatabase) w r d =
     (case map_of (albums d) (ID a) of
        Some old \<Rightarrow> (jsonError w StatusConflict ErrorAlreadyExists None, d)
      | None \<Rightarrow> (writeJSON w StatusCreated (VAlbum a), d\<lparr>albums := albums d @ [(ID a, a)]\<rparr>))"
  by (simp add: addAlbum_valid [OF assms] NewServer_def memoryDatabase_def
        MemoryDatabase_AddAlbum_def split: option.splits)

text \<open>
  C5. The dispatch table. On the path \<^verbatim>\<open>/albums\<close>, GET runs \<^verbatim>\<open>getAlbums\<close>, POST runs
  \<^verbatim>\<open>addAlbum\<close>, and any other method is answered 405 with \<^verbatim>\<open>Allow: GET, POST\<close> and the
  state untouched. On a path \<^verbatim>\<open>/albums/\<close> followed by a non-empty segment without a
  slash, GET runs \<^verbatim>\<open>getAlbumByID\<close> on that segment and any other method is answered 405
  with \<^verbatim>\<open>Allow: GET\<close>. Every other path is answered 404. Over the in-memory database
  the list is answered 200, a valid create of a new ID 201, and the lookup of a stored ID
  200.
\<close>

theorem routing_table:
  "(Path r = ''/albums'' \<longrightarrow>
      (Method r = ''GET'' \<longrightarrow>
         serve s r st = Some (Result (fst (getAlbums s NewRecorder r st)),
                              snd (getAlbums s NewRecorder r st))) \<and>
      (Method r = ''POST'' \<longrightarrow>
         serve s r st = Some (Result (fst (addAlbum s NewRecorder r st)),
                              snd (addAlbum s NewRecorder r st))) \<and>
      (Method r \<noteq> ''GET'' \<and> Method r \<noteq> ''POST'' \<longrightarrow>
         serve s r st =
           Some (\<lparr>StatusCode = 405,
                  Header = [''Allow'' \<mapsto> ''GET, POST'',
                            ''Content-Type'' \<mapsto> ''application/json; charset=utf-8''],
                  Body = [JSONBody (JObject [(''status'', JNumber 405),
                                             (''error'', JString ''method-not-allowed'')])]\<rparr>, st))) \<and>
   (\<forall>i. Path r = ''/albums/'' @ i \<and> i \<noteq> [] \<and> CHR ''/'' \<notin> set i \<longrightarrow>
      (Method r = ''GET'' \<longrightarrow>
         serve s r st = Some (Result (fst (getAlbumByID s NewRecorder r i st)),
                              snd (getAlbumByID s NewRecorder r i st))) \<and>
      (Method r \<noteq> ''GET'' \<longrightarrow>
         serve s r st =
           Some (\<lparr>StatusCode = 405,
                  Header = [''Allow'' \<mapsto> ''GET'',
                            ''Content-Type'' \<mapsto> ''application/json; charset=utf-8''],
                  Body = [JSONBody (JObject [(''status'', JNumber 405),
                                             (''error'', JString ''method-not-allowed'')])]\<rparr>, st))) \<and>
   (Path r \<noteq> ''/albums'' \<and>
    \<not> (\<exists>i. Path r = ''/albums/'' @ i \<and> i \<noteq> [] \<and> CHR ''/'' \<notin> set i) \<longrightarrow>
      serve s r st =
        Some (\<lparr>StatusCode = 404,
               Header = [''Content-Type'' \<mapsto> ''application/json; charset=utf-8''],
               Body = [JSONBody (JObject [(''status'', JNumber 404),
                                          (''error'', JString ''not-found'')])]\<rparr>, st)) \<and>
   (Path r = ''/albums'' \<and> Method r = ''GET'' \<longrightarrow>
      serve (NewServer memoryDatabase) r d =
        Some (\<lparr>StatusCode = 200,
               Header = [''Content-Type'' \<mapsto> ''application/json; charset=utf-8''],
               Body = [JSONBody (JArray (map marshal_Album (sort_key ID (map snd (albums d)))))]\<rparr>, d)) \<and>
   (\<forall>b a. Path r = ''/albums'' \<and> Method r = ''POST'' \<and> io_ReadAll (ReqBody r) = Inr b \<and>
      json_Unmarshal b \<lparr>ID = [], Title = [], Artist = [], Price = 0\<rparr> = (a, None) \<and>
      validate a = [] \<and> map_of (albums d) (ID a) = None \<longrightarrow>
      serve (NewServer memoryDatabase) r d =
        Some (\<lparr>StatusCode = 201,
               Header = [''Content-Type'' \<mapsto> ''application/json; charset=utf-8''],
               Body = [JSONBody (marshal_Album a)]\<rparr>,
              d\<lparr>albums := albums d @ [(ID a, a)]\<rparr>)) \<and>
   (\<forall>i a. Path r = ''/albums/'' @ i \<and> i \<noteq> [] \<and> CHR ''/'' \<notin> set i \<and> Method r = ''GET'' \<and>
      map_of (albums d) i = Some a \<longrightarrow>
      serve (NewServer memoryDatabase) r d =
        Some (\<lparr>StatusCode = 200,
               Header = [''Content-Type'' \<mapsto> ''application/json; charset=utf-8''],
               Body = [JSONBody (marshal_Album a)]\<rparr>, d))"
proof (intro conjI allI impI)
  assume "Path r = ''/albums''" "Method r = ''GET''"
  then show "serve s r st = Some (Result (fst (getAlbums s NewRecorder r st)),
                              snd (getAlbums s NewRecorder r st))"
    by (simp add: serve_collection)
next
  assume "Path r = ''/albums''" "Method r = ''POST''"
  then show "serve s r st = Some (Result (fst (addAlbum s NewRecorder r st)),
                              snd (addAlbum s NewRecorder r st))"
    by (simp add: serve_collection)
next
  assume "Path r = ''/albums''" "Method r \<noteq> ''GET'' \<and> Method r \<noteq> ''POST''"
  then show "serve s r st =
           Some (\<lparr>StatusCode = 405,
                  Header = [''Allow'' \<mapsto> ''GET, POST'',
                            ''Content-Type'' \<mapsto> ''application/json; charset=utf-8''],
                  Body = [JSONBody (JObject [(''status'', JNumber 405),
                                             (''error'', JString ''method-not-allowed'')])]\<rparr>, st)"
    by (simp add: serve_collection)
next
  fix i assume "Path r = ''/albums/'' @ i \<and> i \<noteq> [] \<and> CHR ''/'' \<notin> set i" "Method r = ''GET''"
  then show "serve s r st = Some (Result (fst (getAlbumByID s NewRecorder r i st)),
                              snd (getAlbumByID s NewRecorder r i st))"
    by (simp add: serve_item [of r i])
next
  fix i assume "Path r = ''/albums/'' @ i \<and> i \<noteq> [] \<and> CHR ''/'' \<notin> set i" "Method r \<noteq> ''GET''"
  then show "serve s r st =
           Some (\<lparr>StatusCode = 405,
                  Header = [''Allow'' \<mapsto> ''GET'',
                            ''Content-Type'' \<mapsto> ''application/json; charset=utf-8''],
                  Body = [JSONBody (JObject [(''status'', JNumber 405),
                                             (''error'', JString ''method-not-allowed'')])]\<rparr>, st)"
    by (simp add: serve_item [of r i])
next
  assume "Path r \<noteq> ''/albums'' \<and>
    \<not> (\<exists>i. Path r = ''/albums/'' @ i \<and> i \<noteq> [] \<and> CHR ''/'' \<notin> set i)"
  then show "serve s r st =
        Some (\<lparr>StatusCode = 404,
               Header = [''Content-Type'' \<mapsto> ''application/json; charset=utf-8''],
               Body = [JSONBody (JObject [(''status'', JNumber 404),
                                          (''error'', JString ''not-found'')])]\<rparr>, st)"
    using serve_other [of r s st] by blast
next
  assume "Path r = ''/albums'' \<and> Method r = ''GET''"
  then show "serve (NewServer memoryDatabase) r d =
        Some (\<lparr>StatusCode = 200,
               Header = [''Content-Type'' \<mapsto> ''application/json; charset=utf-8''],
               Body = [JSONBody (JArray (map marshal_Album (sort_key ID (map snd (albums d)))))]\<rparr>, d)"
    by (simp add: serve_collection getAlbums_memory Result_writeJSON fresh_NewRecorder statuses)
next
  fix b a
  assume h: "Path r = ''/albums'' \<and> Method r = ''POST'' \<and> io_ReadAll (ReqBody r) = Inr b \<and>
      json_Unmarshal b \<lparr>ID = [], Title = [], Artist = [], Price = 0\<rparr> = (a, None) \<and>
      validate a = [] \<and> map_of (albums d) (ID a) = None"
  then have "addAlbum (NewServer memoryDatabase) NewRecorder r d =
      (writeJSON NewRecorder StatusCreated (VAlbum a), d\<lparr>albums := albums d @ [(ID a, a)]\<rparr>)"
    by (simp add: addAlbum_memory [of r b a])
  then show "serve (NewServer memoryDatabase) r d =
        Some (\<lparr>StatusCode = 201,
               Header = [''Content-Type'' \<mapsto> ''application/json; charset=utf-8''],
               Body = [JSONBody (marshal_Album a)]\<rparr>,
              d\<lparr>albums := albums d @ [(ID a, a)]\<rparr>)"
    using h by (simp add: serve_collection Result_writeJSON fresh_NewRecorder statuses)
next
  fix i a
  assume h: "Path r = ''/albums/'' @ i \<and> i \<noteq> [] \<and> CHR ''/'' \<notin> set i \<and> Method r = ''GET'' \<and>
      map_of (albums d) i = Some a"
  then show "serve (NewServer memoryDatabase) r d =
        Some (\<lparr>StatusCode = 200,
               Header = [''Content-Type'' \<mapsto> ''application/json; charset=utf-8''],
               Body = [JSONBody (marshal_Album a)]\<rparr>, d)"
    by (simp add: serve_item [of r i] getAlbumByID_memory Result_writeJSON fresh_NewRecorder statuses)
qed

lemmas fixtures = newRequest_def noBody_def newTestServer_def newTestDatabase_eq
  album_a1_def album_a2_def

theorem routing_table_witness:
  "serve newTestServer (newRequest ''GET'' ''/albums'' noBody) newTestDatabase =
     Some (\<lparr>StatusCode = 200,
            Header = [''Content-Type'' \<mapsto> ''application/json; charset=utf-8''],
            Body = [JSONBody (JArray [marshal_Album album_a1, marshal_Album album_a2])]\<rparr>,
           newTestDatabase) \<and>
   serve newTestServer (newRequest ''POST'' ''/albums'' (BytesReader (JSONText body_a9)))
       newTestDatabase =
     Some (\<lparr>StatusCode = 201,
            Header = [''Content-Type'' \<mapsto> ''application/json; charset=utf-8''],
            Body = [JSONBody (marshal_Album album_a9)]\<rparr>,
           \<lparr>albums = [(''a2'', album_a2), (''a1'', album_a1), (''a9'', album_a9)]\<rparr>) \<and>
   serve newTestServer (newRequest ''PUT'' ''/albums'' noBody) newTestDatabase =
     Some (\<lparr>StatusCode = 405,
            Header = [''Allow'' \<mapsto> ''GET, POST'',
                      ''Content-Type'' \<mapsto> ''application/json; charset=utf-8''],
            Body = [JSONBody (JObject [(''status'', JNumber 405),
                                       (''error'', JString ''method-not-allowed'')])]\<rparr>,
           newTestDatabase) \<and>
   serve newTestServer (newRequest ''GET'' ''/albums/a1'' noBody) newTestDatabase =
     Some (\<lparr>StatusCode = 200,
            Header = [''Content-Type'' \<mapsto> ''application/json; charset=utf-8''],
            Body = [JSONBody (marshal_Album album_a1)]\<rparr>, newTestDatabase) \<and>
   serve newTestServer (newRequest ''PUT'' ''/albums/a1'' noBody) newTestDatabase =
     Some (\<lparr>StatusCode = 405,
            Header = [''Allow'' \<mapsto> ''GET'',
                      ''Content-Type'' \<mapsto> ''application/json; charset=utf-8''],
            Body = [JSONBody (JObject [(''status'', JNumber 405),
                                       (''error'', JString ''method-not-allowed'')])]\<rparr>,
           newTestDatabase) \<and>
   serve newTestServer (newRequest ''GET'' ''/albums/'' noBody) newTestDatabase =
     Some (\<lparr>StatusCode = 404,
            Header = [''Content-Type'' \<mapsto> ''application/json; charset=utf-8''],
            Body = [JSONBody (JObject [(''status'', JNumber 404),
                                       (''error'', JString ''not-found'')])]\<rparr>,
           newTestDatabase) \<and>
   serve newTestServer (newRequest ''GET'' ''/albums/foo/bar'' noBody) newTestDatabase =
     Some (\<lparr>StatusCode = 404,
            Header = [''Content-Type'' \<mapsto> ''application/json; charset=utf-8''],
            Body = [JSONBody (JObject [(''status'', JNumber 404),
                                       (''error'', JString ''not-found'')])]\<rparr>,
           newTestDatabase)"
proof -
  note t = routing_table [where s = newTestServer and st = newTestDatabase and d = newTestDatabase]
  have c1: "serve newTestServer (newRequest ''GET'' ''/albums'' noBody) newTestDatabase =
     Some (\<lparr>StatusCode = 200,
            Header = [''Content-Type'' \<mapsto> ''application/json; charset=utf-8''],
            Body = [JSONBody (JArray [marshal_Album album_a1, marshal_Album album_a2])]\<rparr>,
           newTestDatabase)"
    using t [where r = "newRequest ''GET'' ''/albums'' noBody",
        THEN conjunct2, THEN conjunct2, THEN conjunct2, THEN conjunct1]
    by (simp add: fixtures)
  have c2: "serve newTestServer (newRequest ''POST'' ''/albums'' (BytesReader (JSONText body_a9)))
       newTestDatabase =
     Some (\<lparr>StatusCode = 201,
            Header = [''Content-Type'' \<mapsto> ''application/json; charset=utf-8''],
            Body = [JSONBody (marshal_Album album_a9)]\<rparr>,
           \<lparr>albums = [(''a2'', album_a2), (''a1'', album_a1), (''a9'', album_a9)]\<rparr>)"
  proof -
    have "map_of (albums newTestDatabase) (ID album_a9) = None"
      "albums newTestDatabase @ [(ID album_a9, album_a9)] =
         [(''a2'', album_a2), (''a1'', album_a1), (''a9'', album_a9)]"
      by (simp_all add: newTestDatabase_eq album_a9_def)
    then show ?thesis
      using t [where r = "newRequest ''POST'' ''/albums'' (BytesReader (JSONText body_a9))",
        THEN conjunct2, THEN conjunct2, THEN conjunct2, THEN conjunct2, THEN conjunct1,
        rule_format, of "JSONText body_a9" album_a9]
        unmarshal_a9 validate_a9
      by (simp add: newRequest_def newTestServer_def)
  qed
  have c3: "serve newTestServer (newRequest ''PUT'' ''/albums'' noBody) newTestDatabase =
     Some (\<lparr>StatusCode = 405,
            Header = [''Allow'' \<mapsto> ''GET, POST'',
                      ''Content-Type'' \<mapsto> ''application/json; charset=utf-8''],
            Body = [JSONBody (JObject [(''status'', JNumber 405),
                                       (''error'', JString ''method-not-allowed'')])]\<rparr>,
           newTestDatabase)"
    using t [where r = "newRequest ''PUT'' ''/albums'' noBody", THEN conjunct1]
    by (simp add: newRequest_def)
  have c4: "serve newTestServer (newRequest ''GET'' ''/albums/a1'' noBody) newTestDatabase =
     Some (\<lparr>StatusCode = 200,
            Header = [''Content-Type'' \<mapsto> ''application/json; charset=utf-8''],
            Body = [JSONBody (marshal_Album album_a1)]\<rparr>, newTestDatabase)"
    using t [where r = "newRequest ''GET'' ''/albums/a1'' noBody",
        THEN conjunct2, THEN conjunct2, THEN conjunct2, THEN conjunct2, THEN conjunct2,
        rule_format, of "''a1''" album_a1]
    by (simp add: fixtures)
  have c5: "serve newTestServer (newRequest ''PUT'' ''/albums/a1'' noBody) newTestDatabase =
     Some (\<lparr>StatusCode = 405,
            Header = [''Allow'' \<mapsto> ''GET'',
                      ''Content-Type'' \<mapsto> ''application/json; charset=utf-8''],
            Body = [JSONBody (JObject [(''status'', JNumber 405),
                                       (''error'', JString ''method-not-allowed'')])]\<rparr>,
           newTestDatabase)"
    using t [where r = "newRequest ''PUT'' ''/albums/a1'' noBody",
        THEN conjunct2, THEN conjunct1, rule_format, of "''a1''"]
    by (simp add: newRequest_def)
  have c6: "serve newTestServer (newRequest ''GET'' ''/albums/'' noBody) newTestDatabase =
     Some (\<lparr>StatusCode = 404,
            Header = [''Content-Type'' \<mapsto> ''application/json; charset=utf-8''],
            Body = [JSONBody (JObject [(''status'', JNumber 404),
                                       (''error'', JString ''not-found'')])]\<rparr>,
           newTestDatabase)"
    using t [where r = "newRequest ''GET'' ''/albums/'' noBody",
        THEN conjunct2, THEN conjunct2, THEN conjunct1]
    by (simp add: newRequest_def)
  have c7: "serve newTestServer (newRequest ''GET'' ''/albums/foo/bar'' noBody) newTestDatabase =
     Some (\<lparr>StatusCode = 404,
            Header = [''Content-Type'' \<mapsto> ''application/json; charset=utf-8''],
            Body = [JSONBody (JObject [(''status'', JNumber 404),
                                       (''error'', JString ''not-found'')])]\<rparr>,
           newTestDatabase)"
    using t [where r = "newRequest ''GET'' ''/albums/foo/bar'' noBody",
        THEN conjunct2, THEN conjunct2, THEN conjunct1]
    by (simp add: newRequest_def)
  show ?thesis using c1 c2 c3 c4 c5 c6 c7 by (intro conjI)
qed

lemma Result_jsonError_nil:
  "Result (jsonError NewRecorder status kind None) = errorReply status kind"
  by (simp add: Result_jsonError fresh_NewRecorder errorReply_def jsonReply_def
        marshal_errorResponse_def)

lemma Result_jsonError_data:
  "m \<noteq> [] \<Longrightarrow>
   Result (jsonError NewRecorder status kind (Some m)) = errorReplyData status kind (marshal_map m)"
  by (simp add: Result_jsonError fresh_NewRecorder errorReplyData_def jsonReply_def
        marshal_errorResponse_def)

lemma Result_writeJSON_album:
  "Result (writeJSON NewRecorder status (VAlbum a)) = jsonReply status (marshal_Album a)"
  by (simp add: Result_writeJSON fresh_NewRecorder jsonReply_def)

lemma serve_POST:
  "Method r = ''POST'' \<Longrightarrow> Path r = ''/albums'' \<Longrightarrow>
   serve s r st = Some (Result (fst (addAlbum s NewRecorder r st)), snd (addAlbum s NewRecorder r st))"
  by (simp add: serve_collection)

lemma serve_GET_item:
  "Method r = ''GET'' \<Longrightarrow> Path r = ''/albums/'' @ i \<Longrightarrow> i \<noteq> [] \<Longrightarrow> CHR ''/'' \<notin> set i \<Longrightarrow>
   serve s r st = Some (Result (fst (getAlbumByID s NewRecorder r i st)),
                        snd (getAlbumByID s NewRecorder r i st))"
  by (simp add: serve_item [of r i])

lemma marshal_map_message:
  "marshal_map [(''message'', AnyString t)] = JObject [(''message'', JString t)]"
  by (simp add: marshal_map_def)

lemma getAlbumByID_eq:
  "getAlbumByID s w r i st =
     (if errors_Is (snd (fst (GetAlbumByID (db s) i st))) ErrDoesNotExist
      then (jsonError w StatusNotFound ErrorNotFound None, snd (GetAlbumByID (db s) i st))
      else if snd (fst (GetAlbumByID (db s) i st)) \<noteq> None
      then (jsonError w StatusInternalServerError ErrorDatabase None,
            snd (GetAlbumByID (db s) i st))
      else (writeJSON w StatusOK (VAlbum (fst (fst (GetAlbumByID (db s) i st)))),
            snd (GetAlbumByID (db s) i st)))"
  by (simp add: getAlbumByID_def split: prod.splits)

lemma getAlbums_eq:
  "getAlbums s w r st =
     (if snd (fst (GetAlbums (db s) st)) \<noteq> None
      then (jsonError w StatusInternalServerError ErrorDatabase None, snd (GetAlbums (db s) st))
      else (writeJSON w StatusOK (VAlbums (fst (fst (GetAlbums (db s) st)))),
            snd (GetAlbums (db s) st)))"
  by (simp add: getAlbums_def split: prod.splits)

lemma serve_list_error:
  assumes "Method r = ''GET''" "Path r = ''/albums''"
    and "snd (fst (GetAlbums (db s) st)) \<noteq> None"
  shows "serve s r st = Some (errorReply 500 ''database'', snd (GetAlbums (db s) st))"
  using assms(3)
  by (simp add: serve_collection assms(1,2) getAlbums_eq Result_jsonError_nil statuses
        ErrorDatabase_def)

text \<open>
  The list flow has no case for \<^verbatim>\<open>ErrDoesNotExist\<close>: when \<^verbatim>\<open>GetAlbums\<close> fails with
  it, GET \<^verbatim>\<open>/albums\<close> is answered 500 \<^verbatim>\<open>database\<close>, not 404.
\<close>

theorem list_not_found_is_database_error:
  "errors_Is (snd (fst (GetAlbums missingDatabase ()))) ErrDoesNotExist \<and>
   serve (NewServer missingDatabase) (newRequest ''GET'' ''/albums'' noBody) () =
     Some (errorReply 500 ''database'', ()) \<and>
   StatusCode (errorReply 500 ''database'') \<noteq> 404"
proof -
  have e: "errors_Is (snd (fst (GetAlbums missingDatabase ()))) ErrDoesNotExist"
    by (simp add: missingDatabase_def)
  have "serve (NewServer missingDatabase) (newRequest ''GET'' ''/albums'' noBody) () =
      Some (errorReply 500 ''database'', ())"
    using serve_list_error [of "newRequest ''GET'' ''/albums'' noBody" "NewServer missingDatabase" "()"]
    by (simp add: newRequest_def NewServer_def missingDatabase_def)
  moreover have "StatusCode (errorReply 500 ''database'') \<noteq> 404"
    by (simp add: errorReply_def jsonReply_def)
  ultimately show ?thesis using e by (intro conjI)
qed

text \<open>
  C6 (amended). For a POST to \<^verbatim>\<open>/albums\<close>, with any database implementation: a body
  that cannot be read is answered 500 \<^verbatim>\<open>internal\<close>; a body that does not decode is
  answered 400 \<^verbatim>\<open>malformed-json\<close> with the decoder's message as data; and when the
  body decodes to an album that passes validation, the result of \<^verbatim>\<open>AddAlbum\<close>
  decides: an error that is \<^verbatim>\<open>ErrAlreadyExists\<close> gives 409 \<^verbatim>\<open>already-exists\<close>, any
  other error gives 500 \<^verbatim>\<open>database\<close>, and no error gives 201 with the album as body.
  For a GET of an item path, an error of \<^verbatim>\<open>GetAlbumByID\<close> that is
  \<^verbatim>\<open>ErrDoesNotExist\<close> gives 404 \<^verbatim>\<open>not-found\<close> and any other error gives 500
  \<^verbatim>\<open>database\<close>. For a GET of \<^verbatim>\<open>/albums\<close>, every error of \<^verbatim>\<open>GetAlbums\<close>,
  \<^verbatim>\<open>ErrDoesNotExist\<close> included, gives 500 \<^verbatim>\<open>database\<close>.
\<close>

theorem store_failures_translated:
  "(Method r = ''POST'' \<and> Path r = ''/albums'' \<longrightarrow>
      (\<forall>e. io_ReadAll (ReqBody r) = Inl e \<longrightarrow>
         serve s r st = Some (errorReply 500 ''internal'', st)) \<and>
      (\<forall>b v e. io_ReadAll (ReqBody r) = Inr b \<and>
         json_Unmarshal b \<lparr>ID = [], Title = [], Artist = [], Price = 0\<rparr> = (v, Some e) \<longrightarrow>
         serve s r st =
           Some (errorReplyData 400 ''malformed-json''
                   (JObject [(''message'', JString (Error_text e))]), st)) \<and>
      (\<forall>b a. io_ReadAll (ReqBody r) = Inr b \<and>
         json_Unmarshal b \<lparr>ID = [], Title = [], Artist = [], Price = 0\<rparr> = (a, None) \<and>
         validate a = [] \<longrightarrow>
         (errors_Is (fst (AddAlbum (db s) a st)) ErrAlreadyExists \<longrightarrow>
            serve s r st = Some (errorReply 409 ''already-exists'', snd (AddAlbum (db s) a st))) \<and>
         (\<not> errors_Is (fst (AddAlbum (db s) a st)) ErrAlreadyExists \<and>
          fst (AddAlbum (db s) a st) \<noteq> None \<longrightarrow>
            serve s r st = Some (errorReply 500 ''database'', snd (AddAlbum (db s) a st))) \<and>
         (fst (AddAlbum (db s) a st) = None \<longrightarrow>
            serve s r st = Some (jsonReply 201 (marshal_Album a), snd (AddAlbum (db s) a st))))) \<and>
   (\<forall>i. Method r = ''GET'' \<and> Path r = ''/albums/'' @ i \<and> i \<noteq> [] \<and> CHR ''/'' \<notin> set i \<and>
      errors_Is (snd (fst (GetAlbumByID (db s) i st))) ErrDoesNotExist \<longrightarrow>
      serve s r st = Some (errorReply 404 ''not-found'', snd (GetAlbumByID (db s) i st))) \<and>
   (\<forall>i. Method r = ''GET'' \<and> Path r = ''/albums/'' @ i \<and> i \<noteq> [] \<and> CHR ''/'' \<notin> set i \<and>
      \<not> errors_Is (snd (fst (GetAlbumByID (db s) i st))) ErrDoesNotExist \<and>
      snd (fst (GetAlbumByID (db s) i st)) \<noteq> None \<longrightarrow>
      serve s r st = Some (errorReply 500 ''database'', snd (GetAlbumByID (db s) i st))) \<and>
   (Method r = ''GET'' \<and> Path r = ''/albums'' \<and> snd (fst (GetAlbums (db s) st)) \<noteq> None \<longrightarrow>
      serve s r st = Some (errorReply 500 ''database'', snd (GetAlbums (db s) st)))"
proof (intro conjI allI impI)
  fix e assume "Method r = ''POST'' \<and> Path r = ''/albums''" "io_ReadAll (ReqBody r) = Inl e"
  then show "serve s r st = Some (errorReply 500 ''internal'', st)"
    by (simp add: serve_POST addAlbum_read_error Result_jsonError_nil statuses ErrorInternal_def)
next
  fix b v e
  assume "Method r = ''POST'' \<and> Path r = ''/albums''"
    "io_ReadAll (ReqBody r) = Inr b \<and>
     json_Unmarshal b \<lparr>ID = [], Title = [], Artist = [], Price = 0\<rparr> = (v, Some e)"
  then show "serve s r st =
           Some (errorReplyData 400 ''malformed-json''
                   (JObject [(''message'', JString (Error_text e))]), st)"
    by (simp add: serve_POST addAlbum_malformed [of r b v e] Result_jsonError_data statuses
          ErrorMalformedJSON_def marshal_map_message)
next
  fix b a
  assume p: "Method r = ''POST'' \<and> Path r = ''/albums''"
    and h: "io_ReadAll (ReqBody r) = Inr b \<and>
     json_Unmarshal b \<lparr>ID = [], Title = [], Artist = [], Price = 0\<rparr> = (a, None) \<and>
     validate a = []"
  note v = addAlbum_valid [of r b a s NewRecorder st]
  {
    assume "errors_Is (fst (AddAlbum (db s) a st)) ErrAlreadyExists"
    then show "serve s r st = Some (errorReply 409 ''already-exists'', snd (AddAlbum (db s) a st))"
      using p h by (simp add: serve_POST v Result_jsonError_nil statuses ErrorAlreadyExists_def)
  next
    assume "\<not> errors_Is (fst (AddAlbum (db s) a st)) ErrAlreadyExists \<and>
          fst (AddAlbum (db s) a st) \<noteq> None"
    then show "serve s r st = Some (errorReply 500 ''database'', snd (AddAlbum (db s) a st))"
      using p h by (simp add: serve_POST v Result_jsonError_nil statuses ErrorDatabase_def)
  next
    assume "fst (AddAlbum (db s) a st) = None"
    then show "serve s r st = Some (jsonReply 201 (marshal_Album a), snd (AddAlbum (db s) a st))"
      using p h by (simp add: serve_POST v Result_writeJSON_album statuses)
  }
next
  fix i
  assume "Method r = ''GET'' \<and> Path r = ''/albums/'' @ i \<and> i \<noteq> [] \<and> CHR ''/'' \<notin> set i \<and>
      errors_Is (snd (fst (GetAlbumByID (db s) i st))) ErrDoesNotExist"
  then show "serve s r st = Some (errorReply 404 ''not-found'', snd (GetAlbumByID (db s) i st))"
    by (simp add: serve_GET_item [of r i] getAlbumByID_eq Result_jsonError_nil statuses
          ErrorNotFound_def)
next
  fix i
  assume "Method r = ''GET'' \<and> Path r = ''/albums/'' @ i \<and> i \<noteq> [] \<and> CHR ''/'' \<notin> set i \<and>
      \<not> errors_Is (snd (fst (GetAlbumByID (db s) i st))) ErrDoesNotExist \<and>
      snd (fst (GetAlbumByID (db s) i st)) \<noteq> None"
  then show "serve s r st = Some (errorReply 500 ''database'', snd (GetAlbumByID (db s) i st))"
    by (simp add: serve_GET_item [of r i] getAlbumByID_eq Result_jsonError_nil statuses
          ErrorDatabase_def)
next
  assume "Method r = ''GET'' \<and> Path r = ''/albums'' \<and> snd (fst (GetAlbums (db s) st)) \<noteq> None"
  then show "serve s r st = Some (errorReply 500 ''database'', snd (GetAlbums (db s) st))"
    using serve_list_error [of r s st] by blast
qed

lemma unmarshal_foo:
  "json_Unmarshal (JSONText body_foo) \<lparr>ID = [], Title = [], Artist = [], Price = 0\<rparr> = (album_foo, None)"
  by (simp add: body_foo_def album_foo_def decode_member_def to_lower_def Let_def)

lemma validate_foo: "validate album_foo = []"
  by (simp add: validate_def album_foo_def)

theorem store_failures_translated_witness:
  "serve newTestServer (newRequest ''POST'' ''/albums'' (ErrReader (Errors_New ''error'')))
       newTestDatabase = Some (errorReply 500 ''internal'', newTestDatabase) \<and>
   serve newTestServer
       (newRequest ''POST'' ''/albums''
          (BytesReader (NotJSON ''invalid character @ looking for beginning of value'')))
       newTestDatabase =
     Some (errorReplyData 400 ''malformed-json''
             (JObject [(''message'',
                        JString ''invalid character @ looking for beginning of value'')]),
           newTestDatabase) \<and>
   serve newTestServer (newRequest ''POST'' ''/albums'' (BytesReader (JSONText body_foo)))
       newTestDatabase = Some (errorReply 409 ''already-exists'', newTestDatabase) \<and>
   serve errorServer (newRequest ''POST'' ''/albums'' (BytesReader (JSONText body_a9))) () =
     Some (errorReply 500 ''database'', ()) \<and>
   serve newTestServer (newRequest ''POST'' ''/albums'' (BytesReader (JSONText body_a9)))
       newTestDatabase =
     Some (jsonReply 201 (marshal_Album album_a9),
           \<lparr>albums = [(''a2'', album_a2), (''a1'', album_a1), (''a9'', album_a9)]\<rparr>) \<and>
   serve newTestServer (newRequest ''GET'' ''/albums/a3'' noBody) newTestDatabase =
     Some (errorReply 404 ''not-found'', newTestDatabase) \<and>
   serve errorServer (newRequest ''GET'' ''/albums/a1'' noBody) () =
     Some (errorReply 500 ''database'', ()) \<and>
   serve errorServer (newRequest ''GET'' ''/albums'' noBody) () =
     Some (errorReply 500 ''database'', ())"
proof -
  note t = store_failures_translated [where s = newTestServer and st = newTestDatabase]
  have c1: "serve newTestServer (newRequest ''POST'' ''/albums'' (ErrReader (Errors_New ''error'')))
       newTestDatabase = Some (errorReply 500 ''internal'', newTestDatabase)"
    using t [where r = "newRequest ''POST'' ''/albums'' (ErrReader (Errors_New ''error''))",
        THEN conjunct1, rule_format, THEN conjunct1, rule_format, of "Errors_New ''error''"]
    by (simp add: newRequest_def)
  have c2: "serve newTestServer
       (newRequest ''POST'' ''/albums''
          (BytesReader (NotJSON ''invalid character @ looking for beginning of value'')))
       newTestDatabase =
     Some (errorReplyData 400 ''malformed-json''
             (JObject [(''message'',
                        JString ''invalid character @ looking for beginning of value'')]),
           newTestDatabase)"
    using t [where r = "newRequest ''POST'' ''/albums''
          (BytesReader (NotJSON ''invalid character @ looking for beginning of value''))",
        THEN conjunct1, rule_format, THEN conjunct2, THEN conjunct1, rule_format,
        of "NotJSON ''invalid character @ looking for beginning of value''"
           "\<lparr>ID = [], Title = [], Artist = [], Price = 0\<rparr>"
           "JSONError ''invalid character @ looking for beginning of value''"]
    by (simp add: newRequest_def)
  have c3: "serve newTestServer (newRequest ''POST'' ''/albums'' (BytesReader (JSONText body_foo)))
       newTestDatabase = Some (errorReply 409 ''already-exists'', newTestDatabase)"
    using t [where r = "newRequest ''POST'' ''/albums'' (BytesReader (JSONText body_foo))",
        THEN conjunct1, rule_format, THEN conjunct2, THEN conjunct2, rule_format,
        of "JSONText body_foo" album_foo, THEN conjunct1]
      unmarshal_foo validate_foo
    by (simp add: newRequest_def newTestServer_def NewServer_def memoryDatabase_def
          MemoryDatabase_AddAlbum_def newTestDatabase_eq album_foo_def)
  have c4: "serve errorServer (newRequest ''POST'' ''/albums'' (BytesReader (JSONText body_a9))) () =
     Some (errorReply 500 ''database'', ())"
    using store_failures_translated [where s = errorServer and st = "()"
        and r = "newRequest ''POST'' ''/albums'' (BytesReader (JSONText body_a9))",
        THEN conjunct1, rule_format, THEN conjunct2, THEN conjunct2, rule_format,
        of "JSONText body_a9" album_a9, THEN conjunct2, THEN conjunct1]
      unmarshal_a9 validate_a9
    by (simp add: newRequest_def errorServer_def NewServer_def errorDatabase_def)
  have c5: "serve newTestServer (newRequest ''POST'' ''/albums'' (BytesReader (JSONText body_a9)))
       newTestDatabase =
     Some (jsonReply 201 (marshal_Album album_a9),
           \<lparr>albums = [(''a2'', album_a2), (''a1'', album_a1), (''a9'', album_a9)]\<rparr>)"
    using t [where r = "newRequest ''POST'' ''/albums'' (BytesReader (JSONText body_a9))",
        THEN conjunct1, rule_format, THEN conjunct2, THEN conjunct2, rule_format,
        of "JSONText body_a9" album_a9, THEN conjunct2, THEN conjunct2]
      unmarshal_a9 validate_a9
    by (simp add: newRequest_def newTestServer_def NewServer_def memoryDatabase_def
          MemoryDatabase_AddAlbum_def newTestDatabase_eq album_a9_def)
  have c6: "serve newTestServer (newRequest ''GET'' ''/albums/a3'' noBody) newTestDatabase =
     Some (errorReply 404 ''not-found'', newTestDatabase)"
    using t [where r = "newRequest ''GET'' ''/albums/a3'' noBody",
        THEN conjunct2, THEN conjunct1, rule_format, of "''a3''"]
    by (simp add: newRequest_def newTestServer_def NewServer_def memoryDatabase_def
          MemoryDatabase_GetAlbumByID_def newTestDatabase_eq)
  have c7: "serve errorServer (newRequest ''GET'' ''/albums/a1'' noBody) () =
     Some (errorReply 500 ''database'', ())"
    using store_failures_translated [where s = errorServer and st = "()"
        and r = "newRequest ''GET'' ''/albums/a1'' noBody",
        THEN conjunct2, THEN conjunct2, THEN conjunct1, rule_format, of "''a1''"]
    by (simp add: newRequest_def errorServer_def NewServer_def errorDatabase_def)
  have c8: "serve errorServer (newRequest ''GET'' ''/albums'' noBody) () =
     Some (errorReply 500 ''database'', ())"
    using store_failures_translated [where s = errorServer and st = "()"
        and r = "newRequest ''GET'' ''/albums'' noBody",
        THEN conjunct2, THEN conjunct2, THEN conjunct2]
    by (simp add: newRequest_def errorServer_def NewServer_def errorDatabase_def)
  show ?thesis using c1 c2 c3 c4 c5 c6 c7 c8 by (intro conjI)
qed

lemma map_of_sort_key_fst:
  assumes "distinct (map fst m)"
  shows "map_of (sort_key fst m) = map_of m"
proof -
  have "mset (map fst (sort_key fst m)) = mset (map fst m)" by simp
  then have "distinct (map fst (sort_key fst m))"
    using assms mset_eq_imp_distinct_iff by blast
  moreover have "set (sort_key fst m) = set m" by simp
  ultimately show ?thesis using assms map_of_inject_set by blast
qed

lemma json_member_marshal_map:
  assumes "distinct (map fst m)"
  shows "json_member k (marshal_map m) = map_option marshal_any (map_of m k)"
proof -
  have "map_of (map (\<lambda>(k, v). (k, marshal_any v)) xs) k = map_option marshal_any (map_of xs k)"
    for xs :: "(string \<times> any) list"
    by (induction xs) auto
  then show ?thesis
    by (simp add: json_member_def marshal_map_def map_of_sort_key_fst [OF assms])
qed

lemma validate_keys:
  "map_of (validate a) ''id'' = (if ID a = [] then Some required else None)"
  "map_of (validate a) ''title'' = (if Title a = [] then Some required else None)"
  "map_of (validate a) ''artist'' = (if Artist a = [] then Some required else None)"
  "map_of (validate a) ''price'' =
     (if Price a < 0 \<or> 100000 \<le> Price a then Some out_of_range else None)"
  "set (map fst (validate a)) \<subseteq> {''id'', ''title'', ''artist'', ''price''}"
  "distinct (map fst (validate a))"
  by (auto simp: validate_def Let_def required_def out_of_range_def split: if_splits)

lemma validate_empty_iff:
  "validate a = [] \<longleftrightarrow>
     ID a \<noteq> [] \<and> Title a \<noteq> [] \<and> Artist a \<noteq> [] \<and> 0 \<le> Price a \<and> Price a < 100000"
  by (auto simp: validate_def Let_def split: if_splits)

lemma serve_invalid:
  assumes "Method r = ''POST''" "Path r = ''/albums''" "io_ReadAll (ReqBody r) = Inr b"
    and "json_Unmarshal b \<lparr>ID = [], Title = [], Artist = [], Price = 0\<rparr> = (a, None)"
    and "validate a \<noteq> []"
  shows "serve s r st =
     Some (errorReplyData 400 ''validation'' (marshal_map (validate a)), st)"
  by (simp add: serve_POST assms(1,2) addAlbum_invalid [OF assms(3,4,5)]
        Result_jsonError_data [OF assms(5)] statuses ErrorValidation_def)

lemma marshal_required: "marshal_any required = JObject [(''error'', JString ''required'')]"
  by (simp add: required_def marshal_validationIssue_def)

lemma marshal_out_of_range:
  "marshal_any out_of_range =
     JObject [(''error'', JString ''out-of-range''),
              (''message'', JString ''price must be between 0 and $1000'')]"
  by (simp add: out_of_range_def marshal_validationIssue_def)

lemma serve_empty_object:
  "serve s (newRequest ''POST'' ''/albums'' (BytesReader (JSONText (JObject [])))) st =
     Some (errorReplyData 400 ''validation''
             (JObject [(''artist'', marshal_any required), (''id'', marshal_any required),
                       (''title'', marshal_any required)]), st)"
proof -
  let ?a = "\<lparr>ID = [], Title = [], Artist = [], Price = 0\<rparr>"
  have v: "validate ?a = [(''id'', required), (''title'', required), (''artist'', required)]"
    by (simp add: validate_def required_def)
  have m: "marshal_map (validate ?a) =
      JObject [(''artist'', marshal_any required), (''id'', marshal_any required),
               (''title'', marshal_any required)]"
    unfolding v by (simp add: marshal_map_def)
  show ?thesis
    using serve_invalid [of "newRequest ''POST'' ''/albums'' (BytesReader (JSONText (JObject [])))"
        "JSONText (JObject [])" ?a s st]
    unfolding m by (simp add: newRequest_def v)
qed

lemma serve_negative_price:
  "serve s (newRequest ''POST'' ''/albums''
              (BytesReader (JSONText (JObject [(''price'', JNumber (- 1))])))) st =
     Some (errorReplyData 400 ''validation''
             (JObject [(''artist'', marshal_any required), (''id'', marshal_any required),
                       (''price'', marshal_any out_of_range),
                       (''title'', marshal_any required)]), st)"
proof -
  let ?a = "\<lparr>ID = [], Title = [], Artist = [], Price = - 1\<rparr>"
  have u: "json_Unmarshal (JSONText (JObject [(''price'', JNumber (- 1))]))
             \<lparr>ID = [], Title = [], Artist = [], Price = 0\<rparr> = (?a, None)"
    by (simp add: decode_member_def to_lower_def Let_def)
  have v: "validate ?a = [(''id'', required), (''title'', required), (''artist'', required),
                          (''price'', out_of_range)]"
    by (simp add: validate_def required_def out_of_range_def)
  have m: "marshal_map (validate ?a) =
      JObject [(''artist'', marshal_any required), (''id'', marshal_any required),
               (''price'', marshal_any out_of_range), (''title'', marshal_any required)]"
    unfolding v by (simp add: marshal_map_def)
  show ?thesis
    using serve_invalid [of "newRequest ''POST'' ''/albums''
              (BytesReader (JSONText (JObject [(''price'', JNumber (- 1))])))"
        "JSONText (JObject [(''price'', JNumber (- 1))])" ?a s st] u
    unfolding m by (simp add: newRequest_def v)
qed

text \<open>
  C4. The map of issues built by the validation has the key \<^verbatim>\<open>id\<close>, \<^verbatim>\<open>title\<close>,
  \<^verbatim>\<open>artist\<close> exactly when that field is empty, each time with the issue
  \<^verbatim>\<open>required\<close>, the key \<^verbatim>\<open>price\<close> exactly when the price is negative or at least
  100000, with the issue \<^verbatim>\<open>out-of-range\<close>, and no other key; each key is a member
  of the encoded map. When a POST to \<^verbatim>\<open>/albums\<close> decodes to an album with at least one
  issue, the answer is the single envelope 400 \<^verbatim>\<open>validation\<close> with the whole map as
  data, and the database is not called. The body \<^verbatim>\<open>{}\<close> reports \<^verbatim>\<open>id\<close>,
  \<^verbatim>\<open>title\<close> and \<^verbatim>\<open>artist\<close> as required; the body \<^verbatim>\<open>{"price": -1}\<close> reports
  \<^verbatim>\<open>price\<close> as out of range as well.
\<close>

theorem validation_accumulates:
  "map_of (validate a) ''id'' = (if ID a = [] then Some required else None) \<and>
   map_of (validate a) ''title'' = (if Title a = [] then Some required else None) \<and>
   map_of (validate a) ''artist'' = (if Artist a = [] then Some required else None) \<and>
   map_of (validate a) ''price'' =
     (if Price a < 0 \<or> 100000 \<le> Price a then Some out_of_range else None) \<and>
   set (map fst (validate a)) \<subseteq> {''id'', ''title'', ''artist'', ''price''} \<and>
   (\<forall>k. json_member k (marshal_map (validate a)) =
          map_option marshal_any (map_of (validate a) k)) \<and>
   (\<forall>b. Method r = ''POST'' \<and> Path r = ''/albums'' \<and> io_ReadAll (ReqBody r) = Inr b \<and>
      json_Unmarshal b \<lparr>ID = [], Title = [], Artist = [], Price = 0\<rparr> = (a, None) \<and>
      validate a \<noteq> [] \<longrightarrow>
      serve s r st = Some (errorReplyData 400 ''validation'' (marshal_map (validate a)), st)) \<and>
   serve s (newRequest ''POST'' ''/albums'' (BytesReader (JSONText (JObject [])))) st =
     Some (errorReplyData 400 ''validation''
             (JObject [(''artist'', JObject [(''error'', JString ''required'')]),
                       (''id'', JObject [(''error'', JString ''required'')]),
                       (''title'', JObject [(''error'', JString ''required'')])]), st) \<and>
   serve s (newRequest ''POST'' ''/albums''
              (BytesReader (JSONText (JObject [(''price'', JNumber (- 1))])))) st =
     Some (errorReplyData 400 ''validation''
             (JObject [(''artist'', JObject [(''error'', JString ''required'')]),
                       (''id'', JObject [(''error'', JString ''required'')]),
                       (''price'', JObject [(''error'', JString ''out-of-range''),
                          (''message'', JString ''price must be between 0 and $1000'')]),
                       (''title'', JObject [(''error'', JString ''required'')])]), st)"
proof (intro conjI allI impI)
  fix b
  assume "Method r = ''POST'' \<and> Path r = ''/albums'' \<and> io_ReadAll (ReqBody r) = Inr b \<and>
      json_Unmarshal b \<lparr>ID = [], Title = [], Artist = [], Price = 0\<rparr> = (a, None) \<and>
      validate a \<noteq> []"
  then show "serve s r st =
      Some (errorReplyData 400 ''validation'' (marshal_map (validate a)), st)"
    using serve_invalid [of r b a s st] by blast
qed (simp_all only: validate_keys json_member_marshal_map [OF validate_keys(6)]
       serve_empty_object serve_negative_price marshal_required marshal_out_of_range)

theorem validation_accumulates_witness:
  "Method (newRequest ''POST'' ''/albums'' (BytesReader (JSONText (JObject [(''id'', JString ''x'')]))))
     = ''POST'' \<and>
   validate \<lparr>ID = ''x'', Title = [], Artist = [], Price = 0\<rparr> \<noteq> [] \<and>
   serve newTestServer
     (newRequest ''POST'' ''/albums'' (BytesReader (JSONText (JObject [(''id'', JString ''x'')]))))
     newTestDatabase =
     Some (errorReplyData 400 ''validation''
             (JObject [(''artist'', JObject [(''error'', JString ''required'')]),
                       (''title'', JObject [(''error'', JString ''required'')])]),
           newTestDatabase)"
proof -
  let ?r = "newRequest ''POST'' ''/albums'' (BytesReader (JSONText (JObject [(''id'', JString ''x'')])))"
  let ?a = "\<lparr>ID = ''x'', Title = [], Artist = [], Price = 0\<rparr>"
  have m: "Method ?r = ''POST''" and p: "Path ?r = ''/albums''"
    and rd: "io_ReadAll (ReqBody ?r) = Inr (JSONText (JObject [(''id'', JString ''x'')]))"
    by (simp_all add: newRequest_def)
  have u: "json_Unmarshal (JSONText (JObject [(''id'', JString ''x'')]))
             \<lparr>ID = [], Title = [], Artist = [], Price = 0\<rparr> = (?a, None)"
    by (simp add: decode_member_def to_lower_def Let_def)
  have v: "validate ?a = [(''title'', required), (''artist'', required)]"
    by (simp add: validate_def required_def)
  have ne: "validate ?a \<noteq> []" unfolding v by simp
  have mm: "marshal_map (validate ?a) =
      JObject [(''artist'', JObject [(''error'', JString ''required'')]),
               (''title'', JObject [(''error'', JString ''required'')])]"
    unfolding v by (simp add: marshal_map_def marshal_required)
  have "serve newTestServer ?r newTestDatabase =
      Some (errorReplyData 400 ''validation'' (marshal_map (validate ?a)), newTestDatabase)"
    using validation_accumulates [where a = ?a and r = ?r and s = newTestServer
        and st = newTestDatabase] m p rd u ne
    by blast
  then show ?thesis using m ne unfolding mm by (intro conjI)
qed



lemma serve_create_memory:
  assumes "Method r = ''POST''" "Path r = ''/albums''" "io_ReadAll (ReqBody r) = Inr b"
    and "json_Unmarshal b \<lparr>ID = [], Title = [], Artist = [], Price = 0\<rparr> = (a, None)"
    and "validate a = []"
  shows "serve (NewServer memoryDatabase) r d =
     (case map_of (albums d) (ID a) of
        Some old \<Rightarrow> Some (errorReply 409 ''already-exists'', d)
      | None \<Rightarrow> Some (jsonReply 201 (marshal_Album a), d\<lparr>albums := albums d @ [(ID a, a)]\<rparr>))"
  by (simp add: serve_POST assms(1,2) addAlbum_memory [OF assms(3,4,5)] Result_jsonError_nil
        Result_writeJSON_album statuses ErrorAlreadyExists_def split: option.splits)

lemma serve_get_memory:
  assumes "Method r = ''GET''" "Path r = ''/albums/'' @ i" "i \<noteq> []" "CHR ''/'' \<notin> set i"
  shows "serve (NewServer memoryDatabase) r d =
     (case map_of (albums d) i of
        None \<Rightarrow> Some (errorReply 404 ''not-found'', d)
      | Some a \<Rightarrow> Some (jsonReply 200 (marshal_Album a), d))"
  by (simp add: serve_GET_item [OF assms] getAlbumByID_memory Result_jsonError_nil
        Result_writeJSON_album statuses ErrorNotFound_def split: option.splits)

lemma serve_slash_path:
  assumes "Path r = ''/albums/'' @ i" "CHR ''/'' \<in> set i"
  shows "serve s r st = Some (errorReply 404 ''not-found'', st)"
proof -
  have "Path r \<noteq> ''/albums''" using assms(1) by simp
  moreover have "\<not> (\<exists>j. Path r = ''/albums/'' @ j \<and> j \<noteq> [] \<and> CHR ''/'' \<notin> set j)"
    using assms by simp
  ultimately show ?thesis
    using serve_other [of r s st] by (simp add: errorReply_def jsonReply_def)
qed

lemma unmarshal_marshal_Album:
  assumes "- (2 ^ 63) \<le> Price e" "Price e < 2 ^ 63"
  shows "json_Unmarshal (JSONText (marshal_Album e))
           \<lparr>ID = [], Title = [], Artist = [], Price = 0\<rparr> = (e, None)"
  using assms by (simp add: marshal_Album_def decode_member_def to_lower_def Let_def)




text \<open>
  An album whose ID has a slash is created with 201, and the GET of
  \<^verbatim>\<open>/albums/\<close> followed by that ID is answered 404: the path is no item path.
\<close>

theorem created_album_with_slash_not_found:
  "serve newTestServer
     (newRequest ''POST'' ''/albums''
        (BytesReader (JSONText (JObject [(''id'', JString ''a/b''), (''title'', JString ''T''),
                                         (''artist'', JString ''A'')]))))
     NewMemoryDatabase =
     Some (jsonReply 201 (JObject [(''id'', JString ''a/b''), (''title'', JString ''T''),
                                   (''artist'', JString ''A'')]),
           \<lparr>albums = [(''a/b'', \<lparr>ID = ''a/b'', Title = ''T'', Artist = ''A'', Price = 0\<rparr>)]\<rparr>) \<and>
   serve newTestServer (newRequest ''GET'' ''/albums/a/b'' noBody)
     \<lparr>albums = [(''a/b'', \<lparr>ID = ''a/b'', Title = ''T'', Artist = ''A'', Price = 0\<rparr>)]\<rparr> =
     Some (errorReply 404 ''not-found'',
           \<lparr>albums = [(''a/b'', \<lparr>ID = ''a/b'', Title = ''T'', Artist = ''A'', Price = 0\<rparr>)]\<rparr>) \<and>
   StatusCode (errorReply 404 ''not-found'') \<noteq> 200"
proof -
  let ?b = "JSONText (JObject [(''id'', JString ''a/b''), (''title'', JString ''T''),
                               (''artist'', JString ''A'')])"
  let ?a = "\<lparr>ID = ''a/b'', Title = ''T'', Artist = ''A'', Price = 0\<rparr>"
  have u: "json_Unmarshal ?b \<lparr>ID = [], Title = [], Artist = [], Price = 0\<rparr> = (?a, None)"
    by (simp add: decode_member_def to_lower_def Let_def)
  have v: "validate ?a = []" by (simp add: validate_def)
  have c1: "serve newTestServer (newRequest ''POST'' ''/albums'' (BytesReader ?b)) NewMemoryDatabase =
      Some (jsonReply 201 (JObject [(''id'', JString ''a/b''), (''title'', JString ''T''),
                                    (''artist'', JString ''A'')]),
            \<lparr>albums = [(''a/b'', ?a)]\<rparr>)"
    using serve_create_memory [of "newRequest ''POST'' ''/albums'' (BytesReader ?b)" ?b ?a
        NewMemoryDatabase] u v
    by (simp add: newRequest_def newTestServer_def NewMemoryDatabase_def marshal_Album_def)
  have c2: "serve newTestServer (newRequest ''GET'' ''/albums/a/b'' noBody) \<lparr>albums = [(''a/b'', ?a)]\<rparr> =
      Some (errorReply 404 ''not-found'', \<lparr>albums = [(''a/b'', ?a)]\<rparr>)"
    using serve_slash_path [of "newRequest ''GET'' ''/albums/a/b'' noBody" "''a/b''"]
    by (simp add: newRequest_def)
  have c3: "StatusCode (errorReply 404 ''not-found'') \<noteq> 200"
    by (simp add: errorReply_def jsonReply_def)
  show ?thesis using c1 c2 c3 by (intro conjI)
qed

text \<open>
  C2 (amended). For an album \<open>e\<close> whose ID is not in the store, \<^verbatim>\<open>AddAlbum\<close> succeeds
  and \<^verbatim>\<open>GetAlbumByID\<close> of its ID in the new store returns exactly \<open>e\<close>. A POST to
  \<^verbatim>\<open>/albums\<close> that decodes to \<open>e\<close> and passes validation is answered 201 with
  the encoding of \<open>e\<close>, which decodes back to \<open>e\<close>, and leaves that new store; a GET of
  \<^verbatim>\<open>/albums/\<close> followed by the ID is then answered 200 with the same encoding when
  the ID has no slash, and 404 when it has one.
\<close>

theorem insert_then_get_roundtrip:
  assumes "map_of (albums d) (ID e) = None"
  shows "fst (MemoryDatabase_AddAlbum e d) = None \<and>
    fst (MemoryDatabase_GetAlbumByID (ID e) (snd (MemoryDatabase_AddAlbum e d))) = (e, None) \<and>
    (\<forall>r b. Method r = ''POST'' \<and> Path r = ''/albums'' \<and> io_ReadAll (ReqBody r) = Inr b \<and>
       json_Unmarshal b \<lparr>ID = [], Title = [], Artist = [], Price = 0\<rparr> = (e, None) \<and>
       validate e = [] \<longrightarrow>
       serve (NewServer memoryDatabase) r d =
         Some (jsonReply 201 (marshal_Album e), snd (MemoryDatabase_AddAlbum e d)) \<and>
       json_Unmarshal (JSONText (marshal_Album e))
         \<lparr>ID = [], Title = [], Artist = [], Price = 0\<rparr> = (e, None)) \<and>
    (\<forall>r. Method r = ''GET'' \<and> Path r = ''/albums/'' @ ID e \<and> ID e \<noteq> [] \<and>
       CHR ''/'' \<notin> set (ID e) \<longrightarrow>
       serve (NewServer memoryDatabase) r (snd (MemoryDatabase_AddAlbum e d)) =
         Some (jsonReply 200 (marshal_Album e), snd (MemoryDatabase_AddAlbum e d))) \<and>
    (\<forall>r. Path r = ''/albums/'' @ ID e \<and> CHR ''/'' \<in> set (ID e) \<longrightarrow>
       serve (NewServer memoryDatabase) r (snd (MemoryDatabase_AddAlbum e d)) =
         Some (errorReply 404 ''not-found'', snd (MemoryDatabase_AddAlbum e d)))"
proof -
  let ?d' = "snd (MemoryDatabase_AddAlbum e d)"
  have d': "?d' = d\<lparr>albums := albums d @ [(ID e, e)]\<rparr>"
    and ok: "fst (MemoryDatabase_AddAlbum e d) = None"
    using assms by (simp_all add: MemoryDatabase_AddAlbum_def)
  have look: "map_of (albums ?d') (ID e) = Some e"
    using assms by (simp add: d' map_of_append map_add_def)
  then have get: "fst (MemoryDatabase_GetAlbumByID (ID e) ?d') = (e, None)"
    by (simp add: MemoryDatabase_GetAlbumByID_def)
  have post: "\<forall>r b. Method r = ''POST'' \<and> Path r = ''/albums'' \<and> io_ReadAll (ReqBody r) = Inr b \<and>
       json_Unmarshal b \<lparr>ID = [], Title = [], Artist = [], Price = 0\<rparr> = (e, None) \<and>
       validate e = [] \<longrightarrow>
       serve (NewServer memoryDatabase) r d = Some (jsonReply 201 (marshal_Album e), ?d') \<and>
       json_Unmarshal (JSONText (marshal_Album e))
         \<lparr>ID = [], Title = [], Artist = [], Price = 0\<rparr> = (e, None)"
  proof (intro allI impI)
    fix r :: Request and b
    assume h: "Method r = ''POST'' \<and> Path r = ''/albums'' \<and> io_ReadAll (ReqBody r) = Inr b \<and>
       json_Unmarshal b \<lparr>ID = [], Title = [], Artist = [], Price = 0\<rparr> = (e, None) \<and>
       validate e = []"
    then have "serve (NewServer memoryDatabase) r d =
        Some (jsonReply 201 (marshal_Album e), d\<lparr>albums := albums d @ [(ID e, e)]\<rparr>)"
      using serve_create_memory [of r b e d] assms by simp
    moreover have "0 \<le> Price e \<and> Price e < 100000" using h by (simp add: validate_empty_iff)
    then have "json_Unmarshal (JSONText (marshal_Album e))
         \<lparr>ID = [], Title = [], Artist = [], Price = 0\<rparr> = (e, None)"
      by (intro unmarshal_marshal_Album) simp_all
    ultimately show "serve (NewServer memoryDatabase) r d =
         Some (jsonReply 201 (marshal_Album e), ?d') \<and>
       json_Unmarshal (JSONText (marshal_Album e))
         \<lparr>ID = [], Title = [], Artist = [], Price = 0\<rparr> = (e, None)"
      by (simp only: d' simp_thms)
  qed
  have getr: "\<forall>r. Method r = ''GET'' \<and> Path r = ''/albums/'' @ ID e \<and> ID e \<noteq> [] \<and>
       CHR ''/'' \<notin> set (ID e) \<longrightarrow>
       serve (NewServer memoryDatabase) r ?d' = Some (jsonReply 200 (marshal_Album e), ?d')"
  proof (intro allI impI)
    fix r :: Request
    assume "Method r = ''GET'' \<and> Path r = ''/albums/'' @ ID e \<and> ID e \<noteq> [] \<and>
       CHR ''/'' \<notin> set (ID e)"
    then show "serve (NewServer memoryDatabase) r ?d' = Some (jsonReply 200 (marshal_Album e), ?d')"
      using serve_get_memory [of r "ID e" ?d'] look by simp
  qed
  have slash: "\<forall>r. Path r = ''/albums/'' @ ID e \<and> CHR ''/'' \<in> set (ID e) \<longrightarrow>
       serve (NewServer memoryDatabase) r ?d' = Some (errorReply 404 ''not-found'', ?d')"
    by (simp add: serve_slash_path [where s = "NewServer memoryDatabase" and i = "ID e"])
  show ?thesis using ok get post getr slash by (intro conjI)
qed

theorem insert_then_get_roundtrip_witness:
  "map_of (albums newTestDatabase) (ID album_a9) = None \<and>
   fst (MemoryDatabase_GetAlbumByID (ID album_a9)
          (snd (MemoryDatabase_AddAlbum album_a9 newTestDatabase))) = (album_a9, None) \<and>
   serve newTestServer (newRequest ''POST'' ''/albums'' (BytesReader (JSONText body_a9)))
     newTestDatabase =
     Some (jsonReply 201 (marshal_Album album_a9),
           snd (MemoryDatabase_AddAlbum album_a9 newTestDatabase)) \<and>
   serve newTestServer (newRequest ''GET'' ''/albums/a9'' noBody)
     (snd (MemoryDatabase_AddAlbum album_a9 newTestDatabase)) =
     Some (jsonReply 200 (marshal_Album album_a9),
           snd (MemoryDatabase_AddAlbum album_a9 newTestDatabase)) \<and>
   CHR ''/'' \<in> set (ID \<lparr>ID = ''a/b'', Title = ''T'', Artist = ''A'', Price = 0\<rparr>) \<and>
   serve newTestServer (newRequest ''GET'' ''/albums/a/b'' noBody)
     (snd (MemoryDatabase_AddAlbum \<lparr>ID = ''a/b'', Title = ''T'', Artist = ''A'', Price = 0\<rparr>
             NewMemoryDatabase)) =
     Some (errorReply 404 ''not-found'',
           snd (MemoryDatabase_AddAlbum \<lparr>ID = ''a/b'', Title = ''T'', Artist = ''A'', Price = 0\<rparr>
                  NewMemoryDatabase))"
proof -
  have h: "map_of (albums newTestDatabase) (ID album_a9) = None"
    by (simp add: newTestDatabase_eq album_a9_def)
  note t = insert_then_get_roundtrip [OF h]
  have c1: "fst (MemoryDatabase_GetAlbumByID (ID album_a9)
          (snd (MemoryDatabase_AddAlbum album_a9 newTestDatabase))) = (album_a9, None)"
    using t by blast
  have c2: "serve newTestServer (newRequest ''POST'' ''/albums'' (BytesReader (JSONText body_a9)))
     newTestDatabase =
     Some (jsonReply 201 (marshal_Album album_a9),
           snd (MemoryDatabase_AddAlbum album_a9 newTestDatabase))"
    using t [THEN conjunct2, THEN conjunct2, THEN conjunct1, rule_format,
        of "newRequest ''POST'' ''/albums'' (BytesReader (JSONText body_a9))" "JSONText body_a9"]
      unmarshal_a9 validate_a9
    by (simp add: newRequest_def newTestServer_def)
  have c3: "serve newTestServer (newRequest ''GET'' ''/albums/a9'' noBody)
     (snd (MemoryDatabase_AddAlbum album_a9 newTestDatabase)) =
     Some (jsonReply 200 (marshal_Album album_a9),
           snd (MemoryDatabase_AddAlbum album_a9 newTestDatabase))"
    using t [THEN conjunct2, THEN conjunct2, THEN conjunct2, THEN conjunct1, rule_format,
        of "newRequest ''GET'' ''/albums/a9'' noBody"]
    by (simp add: newRequest_def newTestServer_def album_a9_def)
  let ?s = "\<lparr>ID = ''a/b'', Title = ''T'', Artist = ''A'', Price = 0\<rparr>"
  have h2: "map_of (albums NewMemoryDatabase) (ID ?s) = None"
    by (simp add: NewMemoryDatabase_def)
  have c4: "serve newTestServer (newRequest ''GET'' ''/albums/a/b'' noBody)
     (snd (MemoryDatabase_AddAlbum ?s NewMemoryDatabase)) =
     Some (errorReply 404 ''not-found'', snd (MemoryDatabase_AddAlbum ?s NewMemoryDatabase))"
    using insert_then_get_roundtrip [OF h2, THEN conjunct2, THEN conjunct2, THEN conjunct2,
        THEN conjunct2, rule_format, of "newRequest ''GET'' ''/albums/a/b'' noBody"]
    by (simp add: newRequest_def newTestServer_def)
  have c5: "CHR ''/'' \<in> set (ID ?s)" by simp
  show ?thesis using h c1 c2 c3 c5 c4 by (intro conjI)
qed

end
